theory Spec2Isabelle
  imports Complex_Main
begin

section \<open>The geocoder client of \<^verbatim>\<open>yandex_geocoder.py\<close>\<close>

text \<open>
  The class \<^verbatim>\<open>YandexGeocoder\<close> sends one HTTP request per lookup and reads the decoded
  JSON answer. The remote service is the environment: it is a function from the requests
  received so far and the current request to a response, so that it may answer the same
  query differently at different times. Every method takes the object and the list of
  requests sent so far and returns its outcome (an exception as \<open>Inl\<close>), the object and
  the extended list. A request that receives no response at all (a transport failure
  raised inside \<^verbatim>\<open>requests.get\<close>) is outside this model.
\<close>

subsection \<open>Exceptions\<close>

text \<open>
  The three exceptions of \<^verbatim>\<open>src.exceptions\<close> that the module raises itself, with the
  message they are built with, and the built-in exceptions that its subscripts,
  unpacking and conversions raise.
\<close>

datatype error =
    InvalidKey
  | NothingFound string
  | UnexpectedResponse string
  | JSONDecodeError
  | KeyError
  | TypeError
  | IndexError
  | AttributeError
  | ValueError
  | OverflowError
  | ZeroDivisionError
  | InvalidOperation

definition named_error :: "error \<Rightarrow> bool" where
  "named_error e =
     (case e of InvalidKey \<Rightarrow> True | NothingFound m \<Rightarrow> True | UnexpectedResponse m \<Rightarrow> True
      | _ \<Rightarrow> False)"

definition bind_err :: "error + 'a \<Rightarrow> ('a \<Rightarrow> error + 'b) \<Rightarrow> error + 'b" where
  "bind_err r f = (case r of Inl e \<Rightarrow> Inl e | Inr v \<Rightarrow> f v)"

subsection \<open>Decoded JSON and the Python operations applied to it\<close>

text \<open>
  What \<^verbatim>\<open>response.json()\<close> returns: \<^verbatim>\<open>None\<close>, a bool, a number, a str, a list or a dict
  with string keys (an association list, read with \<open>map_of\<close>).
\<close>

datatype pyjson =
    JNull
  | JBool bool
  | JNum real
  | JStr string
  | JArr "pyjson list"
  | JObj "(string \<times> pyjson) list"

text \<open>\<^verbatim>\<open>obj[key]\<close> with a string key.\<close>

fun getitem :: "pyjson \<Rightarrow> string \<Rightarrow> error + pyjson" where
  "getitem (JObj kvs) k = (case map_of kvs k of None \<Rightarrow> Inl KeyError | Some v \<Rightarrow> Inr v)"
| "getitem _ k = Inl TypeError"

text \<open>\<^verbatim>\<open>obj[0]\<close>: the first element of a list, the first character of a str; a dict
  with string keys has no key \<^verbatim>\<open>0\<close>.\<close>

fun getitem0 :: "pyjson \<Rightarrow> error + pyjson" where
  "getitem0 (JArr []) = Inl IndexError"
| "getitem0 (JArr (x # xs)) = Inr x"
| "getitem0 (JStr []) = Inl IndexError"
| "getitem0 (JStr (c # cs)) = Inr (JStr [c])"
| "getitem0 (JObj kvs) = Inl KeyError"
| "getitem0 _ = Inl TypeError"

text \<open>Truth value, as tested by \<^verbatim>\<open>if not data\<close>.\<close>

fun truthy :: "pyjson \<Rightarrow> bool" where
  "truthy JNull = False"
| "truthy (JBool b) = b"
| "truthy (JNum x) = (x \<noteq> 0)"
| "truthy (JStr s) = (s \<noteq> [])"
| "truthy (JArr xs) = (xs \<noteq> [])"
| "truthy (JObj kvs) = (kvs \<noteq> [])"

text \<open>\<^verbatim>\<open>needle in s\<close> on two strings: \<open>needle\<close> occurs in \<open>s\<close> as a contiguous run.\<close>

fun starts_with :: "string \<Rightarrow> string \<Rightarrow> bool" where
  "starts_with [] s = True"
| "starts_with (c # cs) [] = False"
| "starts_with (c # cs) (d # ds) = (c = d \<and> starts_with cs ds)"

fun str_contains :: "string \<Rightarrow> string \<Rightarrow> bool" where
  "str_contains needle [] = (needle = [])"
| "str_contains needle (c # cs) = (starts_with needle (c # cs) \<or> str_contains needle cs)"

text \<open>\<^verbatim>\<open>needle in obj\<close> for a string \<open>needle\<close>: substring of a str, element of a list,
  key of a dict; the other values are not iterable.\<close>

fun py_in :: "string \<Rightarrow> pyjson \<Rightarrow> error + bool" where
  "py_in needle (JStr s) = Inr (str_contains needle s)"
| "py_in needle (JArr xs) = Inr (JStr needle \<in> set xs)"
| "py_in needle (JObj kvs) = Inr (needle \<in> fst ` set kvs)"
| "py_in needle _ = Inl TypeError"

text \<open>\<^verbatim>\<open>s.split(sep)\<close> with a one-character separator: every occurrence splits, empty
  pieces are kept.\<close>

fun split_acc :: "char \<Rightarrow> string \<Rightarrow> string \<Rightarrow> string list" where
  "split_acc sep cur [] = [rev cur]"
| "split_acc sep cur (c # cs) =
     (if c = sep then rev cur # split_acc sep [] cs else split_acc sep (c # cur) cs)"

definition py_split :: "char \<Rightarrow> string \<Rightarrow> string list" where
  "py_split sep s = split_acc sep [] s"

text \<open>\<^verbatim>\<open>coordinates.split(" ")\<close> on a decoded value: only a str has the method.\<close>

fun split_space :: "pyjson \<Rightarrow> error + string list" where
  "split_space (JStr s) = Inr (py_split CHR '' '' s)"
| "split_space _ = Inl AttributeError"

text \<open>\<^verbatim>\<open>longitude, latitude = tuple(...)\<close>: exactly two pieces, or \<^verbatim>\<open>ValueError\<close>.\<close>

fun unpack2 :: "'a list \<Rightarrow> error + ('a \<times> 'a)" where
  "unpack2 [x, y] = Inr (x, y)"
| "unpack2 _ = Inl ValueError"

subsection \<open>Formatting\<close>

text \<open>\<^verbatim>\<open>str\<close> of an int, in decimal.\<close>

definition digit_char :: "nat \<Rightarrow> char" where
  "digit_char n = ''0123456789'' ! (n mod 10)"

fun str_nat :: "nat \<Rightarrow> string" where
  "str_nat n = (if n < 10 then [digit_char n] else str_nat (n div 10) @ [digit_char n])"

definition str_int :: "int \<Rightarrow> string" where
  "str_int i = (if i < 0 then CHR ''-'' # str_nat (nat (- i)) else str_nat (nat i))"

text \<open>
  \<^verbatim>\<open>repr\<close> of a bytes object, which is what an f-string inserts for
  \<^verbatim>\<open>response.content\<close>: \<^verbatim>\<open>b\<close>, a quote (double when the bytes hold a single quote and
  no double one), the bytes with backslash, the quote, tab, newline and carriage return
  escaped and every byte outside the printable ASCII range as \<^verbatim>\<open>\xhh\<close>, and the quote.
\<close>

definition hex_char :: "nat \<Rightarrow> char" where
  "hex_char n = ''0123456789abcdef'' ! (n mod 16)"

definition repr_byte :: "char \<Rightarrow> char \<Rightarrow> string" where
  "repr_byte quote c =
     (if c = quote \<or> c = CHR 0x5C then [CHR 0x5C, c]
      else if c = CHR 0x09 then [CHR 0x5C, CHR ''t'']
      else if c = CHR 0x0A then [CHR 0x5C, CHR ''n'']
      else if c = CHR 0x0D then [CHR 0x5C, CHR ''r'']
      else if (of_char c :: nat) < 0x20 \<or> 0x7F \<le> (of_char c :: nat)
        then [CHR 0x5C, CHR ''x'', hex_char (of_char c div 16), hex_char (of_char c)]
      else [c])"

definition repr_bytes :: "string \<Rightarrow> string" where
  "repr_bytes bs =
     (let quote = (if CHR 0x27 \<in> set bs \<and> CHR 0x22 \<notin> set bs then CHR 0x22 else CHR 0x27)
      in CHR ''b'' # quote # concat (map (repr_byte quote) bs) @ [quote])"

subsection \<open>Floats\<close>

text \<open>
  A Python float is an IEEE 754 double: a finite value, an infinity or a NaN. A finite
  double is the real number it denotes (negative zero is not told from zero). The
  result of an arithmetic operation on finite doubles is the exact result rounded to the
  nearest double, ties to even, and an infinity when it is out of range.
\<close>

datatype pyfloat = Finite real | PInf | NInf | NaN

definition round_half_even :: "real \<Rightarrow> int" where
  "round_half_even q =
     (let f = \<lfloor>q\<rfloor>
      in if q - of_int f < 1 / 2 then f
         else if 1 / 2 < q - of_int f then f + 1
         else if even f then f else f + 1)"

text \<open>The nearest double of a real in range: 53 significant bits above the exponent
  \<open>-1022\<close>, and the fixed spacing of the subnormal numbers below it.\<close>

definition round_double :: "real \<Rightarrow> real" where
  "round_double x =
     (if x = 0 then 0
      else let e = max \<lfloor>log 2 \<bar>x\<bar>\<rfloor> (- 1022);
               u = 2 powr (of_int e - 52)
           in of_int (round_half_even (x / u)) * u)"

definition fl :: "real \<Rightarrow> pyfloat" where
  "fl x =
     (if 2 ^ 1024 - 2 ^ 970 \<le> \<bar>x\<bar> then (if x < 0 then NInf else PInf)
      else Finite (round_double x))"

fun fneg :: "pyfloat \<Rightarrow> pyfloat" where
  "fneg (Finite x) = Finite (- x)"
| "fneg PInf = NInf"
| "fneg NInf = PInf"
| "fneg NaN = NaN"

text \<open>\<^verbatim>\<open>x + y\<close>, \<^verbatim>\<open>x - y\<close> and \<^verbatim>\<open>x * y\<close> on floats never raise.\<close>

fun fadd :: "pyfloat \<Rightarrow> pyfloat \<Rightarrow> pyfloat" where
  "fadd (Finite x) (Finite y) = fl (x + y)"
| "fadd NaN y = NaN"
| "fadd x NaN = NaN"
| "fadd PInf NInf = NaN"
| "fadd NInf PInf = NaN"
| "fadd PInf y = PInf"
| "fadd NInf y = NInf"
| "fadd x PInf = PInf"
| "fadd x NInf = NInf"

definition fsub :: "pyfloat \<Rightarrow> pyfloat \<Rightarrow> pyfloat" where
  "fsub x y = fadd x (fneg y)"

fun fmul :: "pyfloat \<Rightarrow> pyfloat \<Rightarrow> pyfloat" where
  "fmul (Finite x) (Finite y) = fl (x * y)"
| "fmul NaN y = NaN"
| "fmul x NaN = NaN"
| "fmul (Finite x) y = (if x = 0 then NaN else if 0 < x then y else fneg y)"
| "fmul x (Finite y) = (if y = 0 then NaN else if 0 < y then x else fneg x)"
| "fmul PInf y = y"
| "fmul NInf y = fneg y"

text \<open>\<^verbatim>\<open>x / y\<close> raises \<^verbatim>\<open>ZeroDivisionError\<close> when \<open>y\<close> is zero.\<close>

fun fdiv :: "pyfloat \<Rightarrow> pyfloat \<Rightarrow> error + pyfloat" where
  "fdiv x (Finite y) =
     (if y = 0 then Inl ZeroDivisionError
      else Inr (case x of
                  Finite v \<Rightarrow> fl (v / y)
                | NaN \<Rightarrow> NaN
                | _ \<Rightarrow> if 0 < y then x else fneg x))"
| "fdiv NaN y = Inr NaN"
| "fdiv x NaN = Inr NaN"
| "fdiv (Finite x) y = Inr (Finite 0)"
| "fdiv x y = Inr NaN"

subsection \<open>The library values the module computes with\<close>

text \<open>
  The coordinates are \<^verbatim>\<open>decimal.Decimal\<close> values. The module builds them from a string,
  prints them with \<^verbatim>\<open>str\<close> and hands them to \<^verbatim>\<open>math.radians\<close>, which converts them to
  float. These three operations of the standard library are parameters of the model;
  each may raise. So are the functions of the C library that \<^verbatim>\<open>math.sin\<close>,
  \<^verbatim>\<open>math.cos\<close>, \<^verbatim>\<open>math.atan2\<close> and the float power call on finite arguments: IEEE 754
  does not fix their rounding. \<open>c_sin\<close>, \<open>c_cos\<close> and \<open>c_atan2\<close> give the double
  returned; \<open>c_pow\<close> may also return an infinity (out of range) or a NaN.
\<close>

record 'd pylib =
  Decimal :: "string \<Rightarrow> error + 'd"
  str :: "'d \<Rightarrow> string"
  float :: "'d \<Rightarrow> error + pyfloat"
  c_sin :: "real \<Rightarrow> real"
  c_cos :: "real \<Rightarrow> real"
  c_atan2 :: "real \<Rightarrow> real \<Rightarrow> real"
  c_pow :: "real \<Rightarrow> real \<Rightarrow> pyfloat"

subsection \<open>Requests and responses\<close>

record request =
  url :: string
  params :: "(string \<times> string) list"

text \<open>A response: its status, its raw body, and what \<^verbatim>\<open>response.json()\<close> gives for the
  body (\<open>None\<close> when decoding raises).\<close>

record response =
  status_code :: int
  content :: string
  json :: "pyjson option"

type_synonym remote = "request list \<Rightarrow> request \<Rightarrow> response"

text \<open>The object: \<^verbatim>\<open>api_key\<close> is assigned first; an attribute that is not assigned
  yet is \<open>None\<close>, and reading it raises \<^verbatim>\<open>AttributeError\<close>.\<close>

record 'd YandexGeocoder =
  api_key :: string
  long_moscow_ring_road :: "'d option"
  lat_moscow_ring_road :: "'d option"

definition getattr :: "'a option \<Rightarrow> error + 'a" where
  "getattr a = (case a of None \<Rightarrow> Inl AttributeError | Some v \<Rightarrow> Inr v)"

subsection \<open>The methods\<close>

definition geocoder_request :: "string \<Rightarrow> string \<Rightarrow> request" where
  "geocoder_request key location =
     \<lparr>url = ''https://geocode-maps.yandex.ru/1.x/'',
      params = [(''format'', ''json''), (''apikey'', key), (''geocode'', location),
                (''lang'', ''en_RU'')]\<rparr>"

text \<open>The f-string \<^verbatim>\<open>f"status_code={response.status_code}, body={response.content}"\<close>.\<close>

definition unexpected_message :: "response \<Rightarrow> string" where
  "unexpected_message response =
     ''status_code='' @ str_int (status_code response) @ '', body=''
       @ repr_bytes (content response)"

definition request_geocoder ::
  "remote \<Rightarrow> 'd YandexGeocoder \<Rightarrow> string \<Rightarrow> request list
     \<Rightarrow> (error + pyjson) \<times> 'd YandexGeocoder \<times> request list" where
  "request_geocoder srv self location sent =
     (let req = geocoder_request (api_key self) location;
          response = srv sent req;
          sent' = sent @ [req]
      in if status_code response = 200 then
           (case json response of
              None \<Rightarrow> (Inl JSONDecodeError, self, sent')
            | Some body \<Rightarrow> (getitem body ''response'', self, sent'))
         else if status_code response = 400 then (Inl InvalidKey, self, sent')
         else (Inl (UnexpectedResponse (unexpected_message response)), self, sent'))"

text \<open>\<^verbatim>\<open>self.request_geocoder(q)["GeoObjectCollection"]["featureMember"]\<close>, shared by the
  two lookups.\<close>

definition feature_members ::
  "remote \<Rightarrow> 'd YandexGeocoder \<Rightarrow> string \<Rightarrow> request list
     \<Rightarrow> (error + pyjson) \<times> 'd YandexGeocoder \<times> request list" where
  "feature_members srv self location sent =
     (case request_geocoder srv self location sent of
        (r, self', sent') \<Rightarrow>
          (bind_err r (\<lambda>resp.
             bind_err (getitem resp ''GeoObjectCollection'') (\<lambda>coll.
               getitem coll ''featureMember'')), self', sent'))"

definition find_coordinates ::
  "'d pylib \<Rightarrow> remote \<Rightarrow> 'd YandexGeocoder \<Rightarrow> string \<Rightarrow> request list
     \<Rightarrow> (error + ('d \<times> 'd)) \<times> 'd YandexGeocoder \<times> request list" where
  "find_coordinates P srv self address sent =
     (case feature_members srv self address sent of
        (r, self', sent') \<Rightarrow>
          (bind_err r (\<lambda>data.
             if \<not> truthy data
             then Inl (NothingFound (''Nothing found for '' @ [CHR 0x22] @ address @ [CHR 0x22]))
             else
               bind_err (getitem0 data) (\<lambda>first.
               bind_err (getitem first ''GeoObject'') (\<lambda>obj.
               bind_err (getitem obj ''Point'') (\<lambda>point.
               bind_err (getitem point ''pos'') (\<lambda>coordinates.
               bind_err (split_space coordinates) (\<lambda>pieces.
               bind_err (unpack2 pieces) (\<lambda>(longitude, latitude).
               bind_err (Decimal P longitude) (\<lambda>lo.
               bind_err (Decimal P latitude) (\<lambda>la.
                 Inr (lo, la)))))))))), self', sent'))"

definition find_address ::
  "'d pylib \<Rightarrow> remote \<Rightarrow> 'd YandexGeocoder \<Rightarrow> 'd \<Rightarrow> 'd \<Rightarrow> request list
     \<Rightarrow> (error + pyjson) \<times> 'd YandexGeocoder \<times> request list" where
  "find_address P srv self longitude latitude sent =
     (let coordinates = str P longitude @ '','' @ str P latitude
      in case feature_members srv self coordinates sent of
        (r, self', sent') \<Rightarrow>
          (bind_err r (\<lambda>data.
             if \<not> truthy data
             then Inl (NothingFound (''Nothing found for '' @ [CHR 0x22] @ str P longitude
                          @ '', '' @ str P latitude @ [CHR 0x22]))
             else
               bind_err (getitem0 data) (\<lambda>first.
               bind_err (getitem first ''GeoObject'') (\<lambda>obj.
               bind_err (getitem obj ''metaDataProperty'') (\<lambda>meta.
               bind_err (getitem meta ''GeocoderMetaData'') (\<lambda>gmeta.
                 getitem gmeta ''text''))))), self', sent'))"

text \<open>What \<^verbatim>\<open>calculate_distance\<close> returns: the int \<^verbatim>\<open>0\<close> or a float.\<close>

datatype pynum = PyInt int | PyFloat pyfloat

text \<open>\<^verbatim>\<open>math.radians(x)\<close> is \<^verbatim>\<open>x * degToRad\<close>, where \<^verbatim>\<open>degToRad\<close> is the double
  \<^verbatim>\<open>Py_MATH_PI / 180.0\<close>, that is \<^verbatim>\<open>0x1.1df46a2529d39p-6\<close>.\<close>

definition degToRad :: real where
  "degToRad = 5030569068109113 / 2 ^ 58"

definition radians :: "pyfloat \<Rightarrow> pyfloat" where
  "radians x = fmul x (Finite degToRad)"

text \<open>
  \<^verbatim>\<open>math.sin\<close> and \<^verbatim>\<open>math.cos\<close>: the C function on a finite argument, NaN on a NaN,
  and \<^verbatim>\<open>ValueError\<close> on an infinity (the C function returns NaN there, which the
  \<^verbatim>\<open>math\<close> module reports as a domain error).
\<close>

definition math_sin :: "'d pylib \<Rightarrow> pyfloat \<Rightarrow> error + pyfloat" where
  "math_sin P x =
     (case x of
        Finite v \<Rightarrow> Inr (Finite (c_sin P v))
      | NaN \<Rightarrow> Inr NaN
      | _ \<Rightarrow> Inl ValueError)"

definition math_cos :: "'d pylib \<Rightarrow> pyfloat \<Rightarrow> error + pyfloat" where
  "math_cos P x =
     (case x of
        Finite v \<Rightarrow> Inr (Finite (c_cos P v))
      | NaN \<Rightarrow> Inr NaN
      | _ \<Rightarrow> Inl ValueError)"

text \<open>\<^verbatim>\<open>math.sqrt\<close>: correctly rounded; \<^verbatim>\<open>ValueError\<close> below zero.\<close>

definition math_sqrt :: "pyfloat \<Rightarrow> error + pyfloat" where
  "math_sqrt x =
     (case x of
        Finite v \<Rightarrow> if v < 0 then Inl ValueError else Inr (Finite (round_double (sqrt v)))
      | PInf \<Rightarrow> Inr PInf
      | NInf \<Rightarrow> Inl ValueError
      | NaN \<Rightarrow> Inr NaN)"

text \<open>
  \<^verbatim>\<open>math.atan2(y, x)\<close>: the \<^verbatim>\<open>math\<close> module answers itself when an argument is a NaN
  or an infinity or when \<open>y\<close> is zero, with multiples of the double \<^verbatim>\<open>Py_MATH_PI\<close>
  (\<^verbatim>\<open>0x1.921fb54442d18p+1\<close>), and calls the C function otherwise.
\<close>

definition py_math_pi :: real where
  "py_math_pi = 884279719003555 / 2 ^ 48"

fun math_atan2 :: "'d pylib \<Rightarrow> pyfloat \<Rightarrow> pyfloat \<Rightarrow> pyfloat" where
  "math_atan2 P NaN x = NaN"
| "math_atan2 P y NaN = NaN"
| "math_atan2 P PInf PInf = Finite (py_math_pi / 4)"
| "math_atan2 P NInf PInf = Finite (- (py_math_pi / 4))"
| "math_atan2 P PInf NInf = fl (3 * py_math_pi / 4)"
| "math_atan2 P NInf NInf = fl (- (3 * py_math_pi / 4))"
| "math_atan2 P PInf (Finite x) = Finite (py_math_pi / 2)"
| "math_atan2 P NInf (Finite x) = Finite (- (py_math_pi / 2))"
| "math_atan2 P (Finite y) PInf = Finite 0"
| "math_atan2 P (Finite y) NInf = Finite (if y < 0 then - py_math_pi else py_math_pi)"
| "math_atan2 P (Finite y) (Finite x) =
     (if y = 0 then (if 0 \<le> x then Finite 0 else Finite py_math_pi)
      else Finite (c_atan2 P y x))"

text \<open>
  \<^verbatim>\<open>x ** 2\<close> on a float: the interpreter answers itself on a NaN, an infinity, zero
  and \<open>\<plusminus>1\<close>, and calls the C function \<^verbatim>\<open>pow\<close> on the absolute value otherwise, raising
  \<^verbatim>\<open>OverflowError\<close> when the result is out of range.
\<close>

definition float_pow2 :: "'d pylib \<Rightarrow> pyfloat \<Rightarrow> error + pyfloat" where
  "float_pow2 P x =
     (case x of
        NaN \<Rightarrow> Inr NaN
      | PInf \<Rightarrow> Inr PInf
      | NInf \<Rightarrow> Inr PInf
      | Finite v \<Rightarrow>
          if v = 0 then Inr (Finite 0)
          else if \<bar>v\<bar> = 1 then Inr (Finite 1)
          else (case c_pow P \<bar>v\<bar> 2 of
                  Finite r \<Rightarrow> Inr (Finite r)
                | NaN \<Rightarrow> Inl ValueError
                | _ \<Rightarrow> Inl OverflowError))"

text \<open>The \<^verbatim>\<open>else\<close> branch of \<^verbatim>\<open>calculate_distance\<close>, statement by statement and, in
  the expression for \<^verbatim>\<open>a\<close>, operand by operand from left to right.\<close>

definition distance_branch ::
  "'d pylib \<Rightarrow> 'd YandexGeocoder \<Rightarrow> 'd \<Rightarrow> 'd \<Rightarrow> error + pyfloat" where
  "distance_branch P self longitude latitude =
     (let R = Finite 6373
      in bind_err (getattr (lat_moscow_ring_road self)) (\<lambda>rlat.
         bind_err (float P rlat) (\<lambda>flat1.
         bind_err (getattr (long_moscow_ring_road self)) (\<lambda>rlon.
         bind_err (float P rlon) (\<lambda>flon1.
         bind_err (float P latitude) (\<lambda>flat2.
         bind_err (float P longitude) (\<lambda>flon2.
           let lat1 = radians flat1;
               lon1 = radians flon1;
               lat2 = radians flat2;
               lon2 = radians flon2;
               dlon = fsub lon2 lon1;
               dlat = fsub lat2 lat1
           in bind_err (fdiv dlat (Finite 2)) (\<lambda>half_dlat.
              bind_err (math_sin P half_dlat) (\<lambda>s1.
              bind_err (float_pow2 P s1) (\<lambda>s1_squared.
              bind_err (math_cos P lat1) (\<lambda>c1.
              bind_err (math_cos P lat2) (\<lambda>c2.
              bind_err (fdiv dlon (Finite 2)) (\<lambda>half_dlon.
              bind_err (math_sin P half_dlon) (\<lambda>s2.
              bind_err (float_pow2 P s2) (\<lambda>s2_squared.
                let a = fadd s1_squared (fmul (fmul c1 c2) s2_squared)
                in bind_err (math_sqrt a) (\<lambda>sa.
                   bind_err (math_sqrt (fsub (Finite 1) a)) (\<lambda>sb.
                     let c = fmul (Finite 2) (math_atan2 P sa sb);
                         distance = fmul R c
                     in Inr distance)))))))))))))))))"

definition calculate_distance ::
  "'d pylib \<Rightarrow> remote \<Rightarrow> 'd YandexGeocoder \<Rightarrow> string option \<Rightarrow> request list
     \<Rightarrow> (error + pynum) \<times> 'd YandexGeocoder \<times> request list" where
  "calculate_distance P srv self address sent =
     (case address of
        None \<Rightarrow> (Inl TypeError, self, sent)
      | Some a \<Rightarrow>
          (case find_coordinates P srv self a sent of
             (Inl e, self1, sent1) \<Rightarrow> (Inl e, self1, sent1)
           | (Inr (longitude, latitude), self1, sent1) \<Rightarrow>
               (case find_address P srv self1 longitude latitude sent1 of
                  (Inl e, self2, sent2) \<Rightarrow> (Inl e, self2, sent2)
                | (Inr address', self2, sent2) \<Rightarrow>
                    (case py_in ''MKAD'' address' of
                       Inl e \<Rightarrow> (Inl e, self2, sent2)
                     | Inr True \<Rightarrow> (Inr (PyInt 0), self2, sent2)
                     | Inr False \<Rightarrow>
                         (case distance_branch P self2 longitude latitude of
                            Inl e \<Rightarrow> (Inl e, self2, sent2)
                          | Inr d \<Rightarrow> (Inr (PyFloat d), self2, sent2))))))"

text \<open>\<^verbatim>\<open>__init__\<close>: the constructed object, or the exception of the lookup.\<close>

definition init ::
  "'d pylib \<Rightarrow> remote \<Rightarrow> string \<Rightarrow> request list
     \<Rightarrow> (error + 'd YandexGeocoder) \<times> request list" where
  "init P srv key sent =
     (let self = \<lparr>api_key = key, long_moscow_ring_road = None, lat_moscow_ring_road = None\<rparr>
      in case find_coordinates P srv self ''Moscow Ring Road'' sent of
           (Inl e, self', sent') \<Rightarrow> (Inl e, sent')
         | (Inr (lo, la), self', sent') \<Rightarrow>
             (Inr (self'\<lparr>long_moscow_ring_road := Some lo, lat_moscow_ring_road := Some la\<rparr>),
              sent'))"

subsection \<open>The response schema, as the lookups read it\<close>

text \<open>
  A response is a result page when its status is 200 and its decoded body holds a value
  under \<^verbatim>\<open>response.GeoObjectCollection.featureMember\<close>; \<open>features\<close> gives that value.
  A feature carries its position under \<^verbatim>\<open>GeoObject.Point.pos\<close> and its address text
  under \<^verbatim>\<open>GeoObject.metaDataProperty.GeocoderMetaData.text\<close>.
\<close>

definition features :: "response \<Rightarrow> pyjson option" where
  "features r =
     (if status_code r = 200 then
        (case json r of
           None \<Rightarrow> None
         | Some body \<Rightarrow>
             (case bind_err (getitem body ''response'') (\<lambda>resp.
                   bind_err (getitem resp ''GeoObjectCollection'') (\<lambda>coll.
                     getitem coll ''featureMember'')) of
                Inl e \<Rightarrow> None
              | Inr fm \<Rightarrow> Some fm))
      else None)"

definition feature_pos :: "pyjson \<Rightarrow> error + pyjson" where
  "feature_pos f =
     bind_err (getitem f ''GeoObject'') (\<lambda>obj.
     bind_err (getitem obj ''Point'') (\<lambda>point. getitem point ''pos''))"

definition feature_text :: "pyjson \<Rightarrow> error + pyjson" where
  "feature_text f =
     bind_err (getitem f ''GeoObject'') (\<lambda>obj.
     bind_err (getitem obj ''metaDataProperty'') (\<lambda>meta.
     bind_err (getitem meta ''GeocoderMetaData'') (\<lambda>gmeta. getitem gmeta ''text'')))"

text \<open>
  A response follows the schema for \<^verbatim>\<open>find_coordinates\<close> when it is not a 200, or is
  a result page whose \<^verbatim>\<open>featureMember\<close> is an array that is empty or starts with a
  feature whose \<^verbatim>\<open>pos\<close> is a string of two pieces that \<^verbatim>\<open>Decimal\<close> accepts; for
  \<^verbatim>\<open>find_address\<close>, when the first feature has a string under \<^verbatim>\<open>text\<close>. An object
  has its reference point when both attributes are set and convert to float.
  \<open>raises_named\<close> holds of an outcome that is one of the three exceptions of the module.
\<close>

definition position_ok :: "'d pylib \<Rightarrow> pyjson \<Rightarrow> bool" where
  "position_ok P f =
     (case feature_pos f of
        Inr (JStr pos) \<Rightarrow>
          (case py_split CHR '' '' pos of
             [t1, t2] \<Rightarrow> \<not> isl (Decimal P t1) \<and> \<not> isl (Decimal P t2)
           | _ \<Rightarrow> False)
      | _ \<Rightarrow> False)"

definition coordinates_page :: "'d pylib \<Rightarrow> response \<Rightarrow> bool" where
  "coordinates_page P r =
     (if status_code r = 200 then
        (case features r of
           Some (JArr []) \<Rightarrow> True
         | Some (JArr (f # fs)) \<Rightarrow> position_ok P f
         | _ \<Rightarrow> False)
      else True)"

definition address_page :: "response \<Rightarrow> bool" where
  "address_page r =
     (if status_code r = 200 then
        (case features r of
           Some (JArr []) \<Rightarrow> True
         | Some (JArr (f # fs)) \<Rightarrow>
             (case feature_text f of Inr (JStr t) \<Rightarrow> True | _ \<Rightarrow> False)
         | _ \<Rightarrow> False)
      else True)"

definition reference_ok :: "'d pylib \<Rightarrow> 'd YandexGeocoder \<Rightarrow> bool" where
  "reference_ok P self =
     (case (long_moscow_ring_road self, lat_moscow_ring_road self) of
        (Some rlo, Some rla) \<Rightarrow> \<not> isl (float P rlo) \<and> \<not> isl (float P rla)
      | _ \<Rightarrow> False)"

definition raises_named :: "error + 'a \<Rightarrow> bool" where
  "raises_named r = (case r of Inl e \<Rightarrow> named_error e | Inr v \<Rightarrow> False)"

subsection \<open>The great-circle distance, as the specification words it\<close>

text \<open>
  The haversine formula on angles in radians and a sphere of radius \<open>R\<close>, evaluated in
  float arithmetic: \<open>a = sin\<^sup>2(dlat/2) + cos(lat1) cos(lat2) sin\<^sup>2(dlon/2)\<close>,
  \<open>c = 2 atan2(\<surd>a, \<surd>(1 - a))\<close>, distance \<open>R c\<close>. A function that raises makes the
  formula raise.
\<close>

definition sin_squared_half :: "'d pylib \<Rightarrow> pyfloat \<Rightarrow> error + pyfloat" where
  "sin_squared_half P d =
     bind_err (fdiv d (Finite 2)) (\<lambda>h. bind_err (math_sin P h) (float_pow2 P))"

definition haversine_a :: "'d pylib \<Rightarrow> pyfloat \<Rightarrow> pyfloat \<Rightarrow> pyfloat \<Rightarrow> pyfloat
    \<Rightarrow> error + pyfloat" where
  "haversine_a P lat1 lon1 lat2 lon2 =
     bind_err (sin_squared_half P (fsub lat2 lat1)) (\<lambda>hlat.
     bind_err (math_cos P lat1) (\<lambda>c1.
     bind_err (math_cos P lat2) (\<lambda>c2.
     bind_err (sin_squared_half P (fsub lon2 lon1)) (\<lambda>hlon.
       Inr (fadd hlat (fmul (fmul c1 c2) hlon))))))"

definition haversine :: "'d pylib \<Rightarrow> pyfloat \<Rightarrow> pyfloat \<Rightarrow> pyfloat \<Rightarrow> pyfloat \<Rightarrow> pyfloat
    \<Rightarrow> error + pyfloat" where
  "haversine P R lat1 lon1 lat2 lon2 =
     bind_err (haversine_a P lat1 lon1 lat2 lon2) (\<lambda>a.
     bind_err (math_sqrt a) (\<lambda>sa.
     bind_err (math_sqrt (fsub (Finite 1) a)) (\<lambda>sb.
       Inr (fmul R (fmul (Finite 2) (math_atan2 P sa sb))))))"


text \<open>The square of a sine of the C library does not overflow.\<close>

definition sine_square_ok :: "'d pylib \<Rightarrow> bool" where
  "sine_square_ok P =
     (\<forall>x. c_pow P \<bar>c_sin P x\<bar> 2 \<noteq> PInf \<and> c_pow P \<bar>c_sin P x\<bar> 2 \<noteq> NInf)"

subsection \<open>Decimal on plain literals\<close>

text \<open>
  An instance of the library parameters, to run the model on concrete inputs. A
  \<^verbatim>\<open>Decimal\<close> is a sign, a coefficient and an exponent, or an infinity. The constructor
  is covered on the literals \<^verbatim>\<open>[sign] digits [. digits]\<close> and \<^verbatim>\<open>[sign] Infinity\<close> (it
  rejects the rest here, among them the exponent forms and NaNs that Python accepts);
  \<^verbatim>\<open>str\<close> follows \<^verbatim>\<open>Decimal.__str__\<close>; the conversion to float rounds to the nearest
  double. The C functions are taken to round the exact result to the nearest double.
\<close>

datatype decimal = Dec bool nat int | DInf bool

definition is_digit :: "char \<Rightarrow> bool" where
  "is_digit c = (48 \<le> (of_char c :: nat) \<and> (of_char c :: nat) \<le> 57)"

definition digits_value :: "string \<Rightarrow> nat" where
  "digits_value ds = foldl (\<lambda>n c. 10 * n + (of_char c - 48)) 0 ds"

definition Decimal_plain :: "string \<Rightarrow> error + decimal" where
  "Decimal_plain s =
     (let (neg, body) =
            (case s of
               [] \<Rightarrow> (False, [])
             | c # cs \<Rightarrow>
                 if c = CHR ''-'' then (True, cs)
                 else if c = CHR ''+'' then (False, cs)
                 else (False, s));
          intpart = takeWhile is_digit body;
          rest = dropWhile is_digit body
      in if body = ''Infinity'' then Inr (DInf neg)
         else case rest of
           [] \<Rightarrow>
             if intpart = [] then Inl InvalidOperation
             else Inr (Dec neg (digits_value intpart) 0)
         | c # fracpart \<Rightarrow>
             if c = CHR ''.'' \<and> list_all is_digit fracpart \<and> intpart @ fracpart \<noteq> []
             then Inr (Dec neg (digits_value (intpart @ fracpart)) (- int (length fracpart)))
             else Inl InvalidOperation)"

definition str_decimal :: "decimal \<Rightarrow> string" where
  "str_decimal d =
     (case d of
        DInf neg \<Rightarrow> (if neg then ''-'' else []) @ ''Infinity''
      | Dec neg coeff ex \<Rightarrow>
        let sign = (if neg then ''-'' else []);
            ds = str_nat coeff;
            leftdigits = ex + int (length ds);
            dotplace = (if ex \<le> 0 \<and> - 6 < leftdigits then leftdigits else 1);
            intpart =
              (if dotplace \<le> 0 then ''0''
               else if int (length ds) \<le> dotplace
                 then ds @ replicate (nat (dotplace - int (length ds))) CHR ''0''
               else take (nat dotplace) ds);
            fracpart =
              (if dotplace \<le> 0 then ''.'' @ replicate (nat (- dotplace)) CHR ''0'' @ ds
               else if int (length ds) \<le> dotplace then []
               else ''.'' @ drop (nat dotplace) ds);
            e = (if leftdigits = dotplace then []
                 else if leftdigits - dotplace < 0 then ''E'' @ str_int (leftdigits - dotplace)
                 else ''E+'' @ str_int (leftdigits - dotplace))
        in sign @ intpart @ fracpart @ e)"

definition float_decimal :: "decimal \<Rightarrow> error + pyfloat" where
  "float_decimal d =
     (case d of
        DInf neg \<Rightarrow> Inr (if neg then NInf else PInf)
      | Dec neg coeff ex \<Rightarrow>
          Inr (fl ((if neg then - 1 else 1) * real coeff
                   * (if 0 \<le> ex then 10 ^ nat ex else 1 / 10 ^ nat (- ex)))))"

text \<open>The angle of the point \<open>(x, y)\<close>, in \<open>(-\<pi>, \<pi>]\<close>.\<close>

definition angle :: "real \<Rightarrow> real \<Rightarrow> real" where
  "angle y x =
     (if 0 < x then arctan (y / x)
      else if x < 0 then (if 0 \<le> y then arctan (y / x) + pi else arctan (y / x) - pi)
      else if 0 < y then pi / 2
      else if y < 0 then - (pi / 2)
      else 0)"

definition python :: "decimal pylib" where
  "python =
     \<lparr>Decimal = Decimal_plain, str = str_decimal, float = float_decimal,
      c_sin = (\<lambda>x. round_double (sin x)),
      c_cos = (\<lambda>x. round_double (cos x)),
      c_atan2 = (\<lambda>y x. round_double (angle y x)),
      c_pow = (\<lambda>x y. fl (x powr y))\<rparr>"

subsection \<open>Mocked remotes\<close>

text \<open>
  A remote that answers the \<open>n\<close>-th request it receives with the \<open>n\<close>-th response of a
  script, and with status 503 once the script is used up; and the decoded body of a
  result page with the given features.
\<close>

definition scripted :: "response list \<Rightarrow> remote" where
  "scripted rs sent req =
     (case drop (length sent) rs of
        [] \<Rightarrow> \<lparr>status_code = 503, content = [], json = None\<rparr>
      | r # _ \<Rightarrow> r)"

definition feature :: "string \<Rightarrow> string \<Rightarrow> pyjson" where
  "feature pos text =
     JObj [(''GeoObject'',
        JObj [(''metaDataProperty'', JObj [(''GeocoderMetaData'', JObj [(''text'', JStr text)])]),
              (''Point'', JObj [(''pos'', JStr pos)])])]"

definition result_page :: "string \<Rightarrow> pyjson list \<Rightarrow> response" where
  "result_page raw fs =
     \<lparr>status_code = 200, content = raw,
      json = Some (JObj [(''response'',
               JObj [(''GeoObjectCollection'', JObj [(''featureMember'', JArr fs)])])])\<rparr>"

text \<open>An object as \<^verbatim>\<open>__init__\<close> leaves it, and some responses.\<close>

definition example_service :: "decimal YandexGeocoder" where
  "example_service =
     \<lparr>api_key = ''secret'',
      long_moscow_ring_road = Some (Dec False 37632206 (- 6)),
      lat_moscow_ring_road = Some (Dec False 55898947 (- 6))\<rparr>"

definition key_rejected :: response where
  "key_rejected = \<lparr>status_code = 400, content = ''Invalid key'', json = None\<rparr>"

definition not_found :: response where
  "not_found = \<lparr>status_code = 404, content = ''Not Found'', json = None\<rparr>"

definition red_square_page :: response where
  \<open>red_square_page =
     result_page
       ''{"response": {"GeoObjectCollection": {"featureMember": [{"GeoObject": {"metaDataProperty": {"GeocoderMetaData": {"text": "Moscow, Russia"}}, "Point": {"pos": "37.6173 55.7558"}}}]}}}''
       [feature ''37.6173 55.7558'' ''Moscow, Russia'']\<close>

definition empty_page :: response where
  \<open>empty_page =
     result_page ''{"response": {"GeoObjectCollection": {"featureMember": []}}}'' []\<close>

definition ring_road_page :: response where
  \<open>ring_road_page =
     result_page
       ''{"response": {"GeoObjectCollection": {"featureMember": [{"GeoObject": {"metaDataProperty": {"GeocoderMetaData": {"text": "Russia, Moscow, MKAD"}}, "Point": {"pos": "37.632206 55.898947"}}}]}}}''
       [feature ''37.632206 55.898947'' ''Russia, Moscow, MKAD'']\<close>

definition malformed_page :: response where
  "malformed_page = \<lparr>status_code = 200, content = ''{}'', json = Some (JObj [])\<rparr>"

definition unbounded_page :: response where
  \<open>unbounded_page =
     result_page
       ''{"response": {"GeoObjectCollection": {"featureMember": [{"GeoObject": {"metaDataProperty": {"GeocoderMetaData": {"text": "Nowhere"}}, "Point": {"pos": "Infinity Infinity"}}}]}}}''
       [feature ''Infinity Infinity'' ''Nowhere'']\<close>

section \<open>Properties\<close>

subsection \<open>What a method does to the object and to the requests sent\<close>

lemma request_geocoder_frame:
  "snd (request_geocoder srv self location sent) =
     (self, sent @ [geocoder_request (api_key self) location])"
  by (simp add: request_geocoder_def Let_def split: option.split)

lemma feature_members_frame:
  "snd (feature_members srv self location sent) =
     (self, sent @ [geocoder_request (api_key self) location])"
  using request_geocoder_frame [of srv self location sent]
  by (cases "request_geocoder srv self location sent") (simp add: feature_members_def)

lemma find_coordinates_frame:
  "snd (find_coordinates P srv self address sent) =
     (self, sent @ [geocoder_request (api_key self) address])"
  using feature_members_frame [of srv self address sent]
  by (cases "feature_members srv self address sent") (simp add: find_coordinates_def)

lemma find_address_frame:
  "snd (find_address P srv self longitude latitude sent) =
     (self, sent @ [geocoder_request (api_key self) (str P longitude @ '','' @ str P latitude)])"
  using feature_members_frame [of srv self "str P longitude @ '','' @ str P latitude" sent]
  by (cases "feature_members srv self (str P longitude @ '','' @ str P latitude) sent")
     (simp add: find_address_def Let_def)

lemma request_geocoder_400:
  "status_code (srv sent (geocoder_request (api_key self) location)) = 400 \<Longrightarrow>
   fst (request_geocoder srv self location sent) = Inl InvalidKey"
  by (simp add: request_geocoder_def Let_def)

lemma request_geocoder_other:
  "status_code (srv sent (geocoder_request (api_key self) location)) \<noteq> 200 \<Longrightarrow>
   status_code (srv sent (geocoder_request (api_key self) location)) \<noteq> 400 \<Longrightarrow>
   fst (request_geocoder srv self location sent) =
     Inl (UnexpectedResponse
            (unexpected_message (srv sent (geocoder_request (api_key self) location))))"
  by (simp add: request_geocoder_def Let_def)

lemma request_geocoder_200:
  "status_code (srv sent (geocoder_request (api_key self) location)) = 200 \<Longrightarrow>
   json (srv sent (geocoder_request (api_key self) location)) = Some body \<Longrightarrow>
   fst (request_geocoder srv self location sent) = getitem body ''response''"
  by (simp add: request_geocoder_def Let_def)

lemma feature_members_fst:
  "fst (feature_members srv self location sent) =
     bind_err (fst (request_geocoder srv self location sent)) (\<lambda>resp.
       bind_err (getitem resp ''GeoObjectCollection'') (\<lambda>coll.
         getitem coll ''featureMember''))"
  by (simp add: feature_members_def split: prod.split)

lemma feature_members_features:
  assumes "features (srv sent (geocoder_request (api_key self) location)) = Some fm"
  shows "fst (feature_members srv self location sent) = Inr fm"
  using assms
  by (auto simp: feature_members_fst features_def request_geocoder_def Let_def
           split: if_splits option.splits sum.splits)

lemma feature_members_400:
  "status_code (srv sent (geocoder_request (api_key self) location)) = 400 \<Longrightarrow>
   fst (feature_members srv self location sent) = Inl InvalidKey"
  by (simp add: feature_members_fst request_geocoder_400 bind_err_def)

lemma feature_members_other:
  "status_code (srv sent (geocoder_request (api_key self) location)) \<noteq> 200 \<Longrightarrow>
   status_code (srv sent (geocoder_request (api_key self) location)) \<noteq> 400 \<Longrightarrow>
   fst (feature_members srv self location sent) =
     Inl (UnexpectedResponse
            (unexpected_message (srv sent (geocoder_request (api_key self) location))))"
  by (simp add: feature_members_fst request_geocoder_other bind_err_def)

lemma find_coordinates_fst:
  "fst (find_coordinates P srv self address sent) =
     bind_err (fst (feature_members srv self address sent)) (\<lambda>data.
       if \<not> truthy data
       then Inl (NothingFound (''Nothing found for '' @ [CHR 0x22] @ address @ [CHR 0x22]))
       else
         bind_err (getitem0 data) (\<lambda>first.
         bind_err (feature_pos first) (\<lambda>coordinates.
         bind_err (split_space coordinates) (\<lambda>pieces.
         bind_err (unpack2 pieces) (\<lambda>(longitude, latitude).
         bind_err (Decimal P longitude) (\<lambda>lo.
         bind_err (Decimal P latitude) (\<lambda>la.
           Inr (lo, la))))))))"
  by (simp add: find_coordinates_def feature_pos_def bind_err_def
           split: prod.split sum.split)

lemma find_address_fst:
  "fst (find_address P srv self longitude latitude sent) =
     bind_err (fst (feature_members srv self (str P longitude @ '','' @ str P latitude) sent))
       (\<lambda>data.
          if \<not> truthy data
          then Inl (NothingFound (''Nothing found for '' @ [CHR 0x22] @ str P longitude
                       @ '', '' @ str P latitude @ [CHR 0x22]))
          else bind_err (getitem0 data) feature_text)"
  by (simp add: find_address_def feature_text_def bind_err_def Let_def
           split: prod.split sum.split)

subsection \<open>Status codes and empty results\<close>

lemma calculate_distance_first_error:
  "fst (find_coordinates P srv self a sent) = Inl e \<Longrightarrow>
   fst (calculate_distance P srv self (Some a) sent) = Inl e"
  by (cases "find_coordinates P srv self a sent") (simp add: calculate_distance_def)

lemma calculate_distance_second_error:
  assumes "fst (find_coordinates P srv self a sent) = Inr (lo, la)"
    and "fst (find_address P srv self lo la (sent @ [geocoder_request (api_key self) a])) = Inl e"
  shows "fst (calculate_distance P srv self (Some a) sent) = Inl e"
proof -
  from assms(1) find_coordinates_frame [of P srv self a sent]
  have fc: "find_coordinates P srv self a sent =
              (Inr (lo, la), self, sent @ [geocoder_request (api_key self) a])"
    by (cases "find_coordinates P srv self a sent") simp
  from assms(2) obtain rest where
    fa: "find_address P srv self lo la (sent @ [geocoder_request (api_key self) a]) = (Inl e, rest)"
    by (cases "find_address P srv self lo la (sent @ [geocoder_request (api_key self) a])") simp
  show ?thesis
    by (cases rest) (simp add: calculate_distance_def fc fa)
qed

lemma find_coordinates_400:
  "status_code (srv sent (geocoder_request (api_key self) address)) = 400 \<Longrightarrow>
   fst (find_coordinates P srv self address sent) = Inl InvalidKey"
  by (simp add: find_coordinates_fst feature_members_400 bind_err_def)

lemma find_coordinates_other:
  "status_code (srv sent (geocoder_request (api_key self) address)) \<noteq> 200 \<Longrightarrow>
   status_code (srv sent (geocoder_request (api_key self) address)) \<noteq> 400 \<Longrightarrow>
   fst (find_coordinates P srv self address sent) =
     Inl (UnexpectedResponse
            (unexpected_message (srv sent (geocoder_request (api_key self) address))))"
  by (simp add: find_coordinates_fst feature_members_other bind_err_def)

lemma find_address_400:
  "status_code (srv sent (geocoder_request (api_key self) (str P lo @ '','' @ str P la))) = 400
   \<Longrightarrow> fst (find_address P srv self lo la sent) = Inl InvalidKey"
  by (simp add: find_address_fst feature_members_400 bind_err_def)

lemma find_address_other:
  "status_code (srv sent (geocoder_request (api_key self) (str P lo @ '','' @ str P la))) \<noteq> 200
   \<Longrightarrow> status_code (srv sent (geocoder_request (api_key self) (str P lo @ '','' @ str P la)))
         \<noteq> 400
   \<Longrightarrow> fst (find_address P srv self lo la sent) =
     Inl (UnexpectedResponse
       (unexpected_message
          (srv sent (geocoder_request (api_key self) (str P lo @ '','' @ str P la)))))"
  by (simp add: find_address_fst feature_members_other bind_err_def)

lemma split_acc_no_sep:
  "sep \<notin> set t \<Longrightarrow> split_acc sep cur t = [rev cur @ t]"
  by (induction t arbitrary: cur) auto

lemma split_acc_one_sep:
  "sep \<notin> set t1 \<Longrightarrow> sep \<notin> set t2 \<Longrightarrow>
   split_acc sep cur (t1 @ sep # t2) = [rev cur @ t1, t2]"
  by (induction t1 arbitrary: cur) (auto simp: split_acc_no_sep)

lemma py_split_two:
  "CHR '' '' \<notin> set t1 \<Longrightarrow> CHR '' '' \<notin> set t2 \<Longrightarrow>
   py_split CHR '' '' (t1 @ '' '' @ t2) = [t1, t2]"
  using split_acc_one_sep [of "CHR '' ''" t1 t2 "[]"] by (simp add: py_split_def)

lemma find_coordinates_empty:
  assumes "features (srv sent (geocoder_request (api_key self) address)) = Some (JArr [])"
  shows "fst (find_coordinates P srv self address sent) =
           Inl (NothingFound (''Nothing found for '' @ [CHR 0x22] @ address @ [CHR 0x22]))"
proof -
  have "fst (feature_members srv self address sent) = Inr (JArr [])"
    by (rule feature_members_features) (rule assms)
  then show ?thesis
    by (simp add: find_coordinates_fst bind_err_def)
qed

lemma find_address_empty:
  assumes "features (srv sent (geocoder_request (api_key self) (str P lo @ '','' @ str P la)))
             = Some (JArr [])"
  shows "fst (find_address P srv self lo la sent) =
           Inl (NothingFound (''Nothing found for '' @ [CHR 0x22] @ str P lo @ '', ''
                  @ str P la @ [CHR 0x22]))"
proof -
  have "fst (feature_members srv self (str P lo @ '','' @ str P la) sent) = Inr (JArr [])"
    by (rule feature_members_features) (rule assms)
  then show ?thesis
    by (simp add: find_address_fst bind_err_def)
qed

lemma find_coordinates_first:
  assumes "features (srv sent (geocoder_request (api_key self) address)) = Some (JArr (f # fs))"
  shows "fst (find_coordinates P srv self address sent) =
           bind_err (feature_pos f) (\<lambda>coordinates.
           bind_err (split_space coordinates) (\<lambda>pieces.
           bind_err (unpack2 pieces) (\<lambda>(longitude, latitude).
           bind_err (Decimal P longitude) (\<lambda>lo.
           bind_err (Decimal P latitude) (\<lambda>la. Inr (lo, la))))))"
proof -
  have "fst (feature_members srv self address sent) = Inr (JArr (f # fs))"
    by (rule feature_members_features) (rule assms)
  then show ?thesis
    by (simp add: find_coordinates_fst bind_err_def)
qed

lemma find_address_first:
  assumes "features (srv sent (geocoder_request (api_key self) (str P lo @ '','' @ str P la)))
             = Some (JArr (f # fs))"
  shows "fst (find_address P srv self lo la sent) = feature_text f"
proof -
  have "fst (feature_members srv self (str P lo @ '','' @ str P la) sent) = Inr (JArr (f # fs))"
    by (rule feature_members_features) (rule assms)
  then show ?thesis
    by (simp add: find_address_fst bind_err_def)
qed

subsection \<open>The example responses\<close>

lemma red_square_features:
  "features (scripted [red_square_page] [] q)
     = Some (JArr [feature ''37.6173 55.7558'' ''Moscow, Russia''])"
  by (simp add: features_def scripted_def red_square_page_def result_page_def bind_err_def)

lemma empty_page_features:
  "features (scripted [empty_page] [] q) = Some (JArr [])"
  by (simp add: features_def scripted_def empty_page_def result_page_def bind_err_def)

lemma feature_pos_feature: "feature_pos (feature pos text) = Inr (JStr pos)"
  by (simp add: feature_pos_def feature_def bind_err_def)

lemma feature_text_feature: "feature_text (feature pos text) = Inr (JStr text)"
  by (simp add: feature_text_def feature_def bind_err_def)

lemma Decimal_python_examples:
  "Decimal python ''37.6173'' = Inr (Dec False 376173 (- 4))"
  "Decimal python ''55.7558'' = Inr (Dec False 557558 (- 4))"
  by (simp_all add: python_def Decimal_plain_def is_digit_def digits_value_def)

lemma str_python_examples:
  "str python (Dec False 376173 (- 4)) = ''37.6173''"
  "str python (Dec False 557558 (- 4)) = ''55.7558''"
  by (simp_all add: python_def str_decimal_def digit_char_def)

subsection \<open>Normal forms of the composed methods\<close>

lemma find_coordinates_shape:
  "find_coordinates P srv self a sent =
     (fst (find_coordinates P srv self a sent), self,
      sent @ [geocoder_request (api_key self) a])"
  using find_coordinates_frame [of P srv self a sent]
  by (cases "find_coordinates P srv self a sent") simp

lemma find_address_shape:
  "find_address P srv self lo la sent =
     (fst (find_address P srv self lo la sent), self,
      sent @ [geocoder_request (api_key self) (str P lo @ '','' @ str P la)])"
  using find_address_frame [of P srv self lo la sent]
  by (cases "find_address P srv self lo la sent") simp

lemma calculate_distance_Some:
  "calculate_distance P srv self (Some a) sent =
     (case fst (find_coordinates P srv self a sent) of
        Inl e \<Rightarrow> (Inl e, self, sent @ [geocoder_request (api_key self) a])
      | Inr (lo, la) \<Rightarrow>
          (case fst (find_address P srv self lo la (sent @ [geocoder_request (api_key self) a])) of
             Inl e \<Rightarrow> Inl e
           | Inr text \<Rightarrow>
               (case py_in ''MKAD'' text of
                  Inl e \<Rightarrow> Inl e
                | Inr True \<Rightarrow> Inr (PyInt 0)
                | Inr False \<Rightarrow>
                    (case distance_branch P self lo la of
                       Inl e \<Rightarrow> Inl e
                     | Inr d \<Rightarrow> Inr (PyFloat d))),
           self,
           sent @ [geocoder_request (api_key self) a,
                   geocoder_request (api_key self) (str P lo @ '','' @ str P la)]))"
proof (cases "fst (find_coordinates P srv self a sent)")
  case (Inl e)
  then show ?thesis
    by (subst calculate_distance_def, subst find_coordinates_shape) simp
next
  case (Inr c)
  obtain lo la where c: "c = (lo, la)" by (cases c)
  show ?thesis
    by (subst calculate_distance_def, subst find_coordinates_shape,
        subst find_address_shape)
       (simp add: Inr c split: sum.split bool.split)
qed

lemma calculate_distance_self:
  "fst (snd (calculate_distance P srv self address sent)) = self"
proof (cases address)
  case None
  then show ?thesis by (simp add: calculate_distance_def)
next
  case (Some a)
  then show ?thesis
    by (simp add: calculate_distance_Some split: sum.split prod.split)
qed

lemma init_fst:
  "fst (init P srv key sent) =
     (case fst (find_coordinates P srv
                  \<lparr>api_key = key, long_moscow_ring_road = None, lat_moscow_ring_road = None\<rparr>
                  ''Moscow Ring Road'' sent) of
        Inl e \<Rightarrow> Inl e
      | Inr (lo, la) \<Rightarrow>
          Inr \<lparr>api_key = key, long_moscow_ring_road = Some lo, lat_moscow_ring_road = Some la\<rparr>)"
  by (subst init_def, subst find_coordinates_shape) (simp add: Let_def split: sum.split)

lemma init_snd:
  "snd (init P srv key sent) = sent @ [geocoder_request key ''Moscow Ring Road'']"
  by (subst init_def, subst find_coordinates_shape) (simp add: Let_def split: sum.split)

lemma ring_road_features:
  "features (scripted [ring_road_page] [] q)
     = Some (JArr [feature ''37.632206 55.898947'' ''Russia, Moscow, MKAD''])"
  by (simp add: features_def scripted_def ring_road_page_def result_page_def bind_err_def)

lemma Decimal_python_ring_road:
  "Decimal python ''37.632206'' = Inr (Dec False 37632206 (- 6))"
  "Decimal python ''55.898947'' = Inr (Dec False 55898947 (- 6))"
  by (simp_all add: python_def Decimal_plain_def is_digit_def digits_value_def)

lemma find_coordinates_tokens:
  assumes "features (srv sent (geocoder_request (api_key self) address)) = Some (JArr (f # fs))"
    and "feature_pos f = Inr (JStr (t1 @ '' '' @ t2))"
    and "CHR '' '' \<notin> set t1" and "CHR '' '' \<notin> set t2"
    and "Decimal P t1 = Inr longitude" and "Decimal P t2 = Inr latitude"
  shows "fst (find_coordinates P srv self address sent) = Inr (longitude, latitude)"
proof -
  have "fst (find_coordinates P srv self address sent) =
           bind_err (feature_pos f) (\<lambda>coordinates.
           bind_err (split_space coordinates) (\<lambda>pieces.
           bind_err (unpack2 pieces) (\<lambda>(longitude, latitude).
           bind_err (Decimal P longitude) (\<lambda>lo.
           bind_err (Decimal P latitude) (\<lambda>la. Inr (lo, la))))))"
    by (rule find_coordinates_first) (rule assms(1))
  moreover have "py_split CHR '' '' (t1 @ '' '' @ t2) = [t1, t2]"
    using assms(3,4) by (rule py_split_two)
  ultimately show ?thesis
    using assms(2,5,6) by (simp add: bind_err_def)
qed

subsection \<open>Substrings\<close>

lemma starts_with_iff: "starts_with n s \<longleftrightarrow> (\<exists>q. s = n @ q)"
  by (induction n s rule: starts_with.induct) auto

lemma str_contains_iff: "str_contains n s \<longleftrightarrow> (\<exists>p q. s = p @ n @ q)"
proof (induction s)
  case Nil
  then show ?case by auto
next
  case (Cons c cs)
  show ?case
  proof
    assume "str_contains n (c # cs)"
    then consider "starts_with n (c # cs)" | "str_contains n cs" by auto
    then show "\<exists>p q. c # cs = p @ n @ q"
    proof cases
      case 1
      then obtain q where "c # cs = n @ q" by (auto simp: starts_with_iff)
      then have "c # cs = [] @ n @ q" by simp
      then show ?thesis by blast
    next
      case 2
      with Cons obtain p q where "cs = p @ n @ q" by auto
      then have "c # cs = (c # p) @ n @ q" by simp
      then show ?thesis by blast
    qed
  next
    assume "\<exists>p q. c # cs = p @ n @ q"
    then obtain p q where pq: "c # cs = p @ n @ q" by blast
    show "str_contains n (c # cs)"
    proof (cases p)
      case Nil
      with pq have "starts_with n (c # cs)" by (auto simp: starts_with_iff)
      then show ?thesis by simp
    next
      case (Cons d ds)
      with pq have "cs = ds @ n @ q" by simp
      with Cons.IH have "str_contains n cs" by blast
      then show ?thesis by simp
    qed
  qed
qed

lemma example_service_fields:
  "api_key example_service = ''secret''"
  "long_moscow_ring_road example_service = Some (Dec False 37632206 (- 6))"
  "lat_moscow_ring_road example_service = Some (Dec False 55898947 (- 6))"
  by (simp_all add: example_service_def)

lemma red_square_round_trip:
  assumes "api_key self = ''secret''"
  shows "fst (find_coordinates python (scripted [red_square_page, red_square_page]) self
                ''Red Square'' [])
           = Inr (Dec False 376173 (- 4), Dec False 557558 (- 4))"
    and "fst (find_address python (scripted [red_square_page, red_square_page]) self
                (Dec False 376173 (- 4)) (Dec False 557558 (- 4))
                ([] @ [geocoder_request (api_key self) ''Red Square'']))
           = Inr (JStr ''Moscow, Russia'')"
proof -
  let ?srv = "scripted [red_square_page, red_square_page]"
  let ?lo = "Dec False 376173 (- 4)" and ?la = "Dec False 557558 (- 4)"
  let ?f = "feature ''37.6173 55.7558'' ''Moscow, Russia''"
  have f1: "features (?srv [] (geocoder_request (api_key self) ''Red Square''))
              = Some (JArr [?f])"
    by (simp add: features_def scripted_def red_square_page_def result_page_def bind_err_def)
  have p: "feature_pos ?f = Inr (JStr (''37.6173'' @ '' '' @ ''55.7558''))"
    by (simp add: feature_pos_feature)
  have s1: "CHR '' '' \<notin> set ''37.6173''" and s2: "CHR '' '' \<notin> set ''55.7558''"
    by simp_all
  show "fst (find_coordinates python ?srv self ''Red Square'' []) = Inr (?lo, ?la)"
    by (rule find_coordinates_tokens [where fs = "[]", OF _ p s1 s2 Decimal_python_examples])
       (rule f1)
  have f2: "features (?srv ([] @ [geocoder_request (api_key self) ''Red Square''])
              (geocoder_request (api_key self) (str python ?lo @ '','' @ str python ?la)))
            = Some (JArr [?f])"
    by (simp add: features_def scripted_def red_square_page_def result_page_def bind_err_def)
  have "fst (find_address python ?srv self ?lo ?la
               ([] @ [geocoder_request (api_key self) ''Red Square''])) = feature_text ?f"
    by (rule find_address_first) (rule f2)
  then show "fst (find_address python ?srv self ?lo ?la
               ([] @ [geocoder_request (api_key self) ''Red Square'']))
          = Inr (JStr ''Moscow, Russia'')"
    by (simp add: feature_text_feature)
qed

subsection \<open>Outcomes on responses that follow the schema\<close>

lemma non_200_named:
  assumes "status_code (srv sent (geocoder_request (api_key self) location)) \<noteq> 200"
  shows "\<exists>e. fst (feature_members srv self location sent) = Inl e \<and> named_error e"
proof (cases "status_code (srv sent (geocoder_request (api_key self) location)) = 400")
  case True
  then have "fst (feature_members srv self location sent) = Inl InvalidKey"
    by (rule feature_members_400)
  then show ?thesis by (simp add: named_error_def)
next
  case False
  with assms have "fst (feature_members srv self location sent) =
     Inl (UnexpectedResponse
            (unexpected_message (srv sent (geocoder_request (api_key self) location))))"
    by (rule feature_members_other)
  then show ?thesis by (simp add: named_error_def)
qed

lemma features_200:
  "features r = Some fm \<Longrightarrow> status_code r = 200"
  by (simp add: features_def split: if_splits)

lemma find_coordinates_outcome:
  assumes "coordinates_page P (srv sent (geocoder_request (api_key self) address))"
  shows "(\<exists>e. fst (find_coordinates P srv self address sent) = Inl e \<and> named_error e)
         \<or> (\<exists>lo la. fst (find_coordinates P srv self address sent) = Inr (lo, la))"
proof (cases "status_code (srv sent (geocoder_request (api_key self) address)) = 200")
  case False
  then obtain e where "fst (feature_members srv self address sent) = Inl e" "named_error e"
    using non_200_named by blast
  then show ?thesis by (simp add: find_coordinates_fst bind_err_def)
next
  case True
  let ?r = "srv sent (geocoder_request (api_key self) address)"
  from assms True consider "features ?r = Some (JArr [])"
    | f fs where "features ?r = Some (JArr (f # fs))" "position_ok P f"
    by (auto simp: coordinates_page_def split: option.splits pyjson.splits list.splits)
  then show ?thesis
  proof cases
    case 1
    then have "fst (find_coordinates P srv self address sent) =
           Inl (NothingFound (''Nothing found for '' @ [CHR 0x22] @ address @ [CHR 0x22]))"
      by (rule find_coordinates_empty)
    then show ?thesis by (simp add: named_error_def)
  next
    case 2
    have "fst (find_coordinates P srv self address sent) =
           bind_err (feature_pos f) (\<lambda>coordinates.
           bind_err (split_space coordinates) (\<lambda>pieces.
           bind_err (unpack2 pieces) (\<lambda>(longitude, latitude).
           bind_err (Decimal P longitude) (\<lambda>lo.
           bind_err (Decimal P latitude) (\<lambda>la. Inr (lo, la))))))"
      by (rule find_coordinates_first) (rule 2(1))
    with 2(2) show ?thesis
      by (auto simp: position_ok_def bind_err_def
               split: sum.splits pyjson.splits list.splits)
  qed
qed

lemma find_address_outcome:
  assumes "address_page (srv sent (geocoder_request (api_key self)
                                     (str P lo @ '','' @ str P la)))"
  shows "(\<exists>e. fst (find_address P srv self lo la sent) = Inl e \<and> named_error e)
         \<or> (\<exists>t. fst (find_address P srv self lo la sent) = Inr (JStr t))"
proof (cases "status_code (srv sent (geocoder_request (api_key self)
                                       (str P lo @ '','' @ str P la))) = 200")
  case False
  then obtain e where
    "fst (feature_members srv self (str P lo @ '','' @ str P la) sent) = Inl e" "named_error e"
    using non_200_named by blast
  then show ?thesis by (simp add: find_address_fst bind_err_def)
next
  case True
  let ?r = "srv sent (geocoder_request (api_key self) (str P lo @ '','' @ str P la))"
  from assms True consider "features ?r = Some (JArr [])"
    | f fs t where "features ?r = Some (JArr (f # fs))" "feature_text f = Inr (JStr t)"
    by (auto simp: address_page_def split: option.splits pyjson.splits list.splits sum.splits)
  then show ?thesis
  proof cases
    case 1
    then have "fst (find_address P srv self lo la sent) =
           Inl (NothingFound (''Nothing found for '' @ [CHR 0x22] @ str P lo @ '', ''
                  @ str P la @ [CHR 0x22]))"
      by (rule find_address_empty)
    then show ?thesis by (simp add: named_error_def)
  next
    case 2
    have "fst (find_address P srv self lo la sent) = feature_text f"
      by (rule find_address_first) (rule 2(1))
    with 2(2) show ?thesis by simp
  qed
qed

subsection \<open>The status code can be read back from the message\<close>

lemma digit_char_cases:
  "digit_char n \<in> set ''0123456789'' \<and> (of_char (digit_char n) :: nat) - 48 = n mod 10"
proof -
  have "n mod 10 < 10" by simp
  then consider "n mod 10 = 0" | "n mod 10 = 1" | "n mod 10 = 2" | "n mod 10 = 3"
    | "n mod 10 = 4" | "n mod 10 = 5" | "n mod 10 = 6" | "n mod 10 = 7" | "n mod 10 = 8"
    | "n mod 10 = 9"
    by atomize_elim arith
  then show ?thesis
    by cases (simp_all add: digit_char_def)
qed

lemma digits_value_snoc:
  "digits_value (ds @ [c]) = 10 * digits_value ds + (of_char c - 48)"
  by (simp add: digits_value_def)

lemma digits_value_str_nat: "digits_value (str_nat n) = n"
proof (induction n rule: str_nat.induct)
  case (1 n)
  show ?case
  proof (cases "n < 10")
    case True
    then show ?thesis
      by (subst str_nat.simps) (simp add: digits_value_def digit_char_cases)
  next
    case False
    with 1 have "digits_value (str_nat (n div 10)) = n div 10" by simp
    with False show ?thesis
      by (subst str_nat.simps) (simp add: digits_value_snoc digit_char_cases)
  qed
qed

lemma str_nat_digits: "set (str_nat n) \<subseteq> set ''0123456789''"
proof (induction n rule: str_nat.induct)
  case (1 n)
  show ?case
  proof (cases "n < 10")
    case True
    then show ?thesis
      using digit_char_cases [of n] by (subst str_nat.simps) simp
  next
    case False
    with 1 have "set (str_nat (n div 10)) \<subseteq> set ''0123456789''" by simp
    with False show ?thesis
      using digit_char_cases [of n] by (subst str_nat.simps) simp
  qed
qed

lemma str_nat_inj: "str_nat m = str_nat n \<Longrightarrow> m = n"
  by (metis digits_value_str_nat)

lemma str_nat_no_minus: "str_nat n \<noteq> CHR ''-'' # s"
proof
  assume "str_nat n = CHR ''-'' # s"
  then have "CHR ''-'' \<in> set (str_nat n)" by (simp del: str_nat.simps)
  with str_nat_digits [of n] show False by (auto simp del: str_nat.simps)
qed

lemma str_int_inj: "str_int i = str_int j \<Longrightarrow> i = j"
proof -
  assume a: "str_int i = str_int j"
  consider "i < 0" "j < 0" | "i < 0" "\<not> j < 0" | "\<not> i < 0" "j < 0" | "\<not> i < 0" "\<not> j < 0"
    by blast
  then show "i = j"
  proof cases
    case 1
    with a have "str_nat (nat (- i)) = str_nat (nat (- j))"
      by (simp add: str_int_def del: str_nat.simps)
    then have "nat (- i) = nat (- j)" by (rule str_nat_inj)
    with 1 show ?thesis by simp
  next
    case 2
    with a have "str_nat (nat j) = CHR ''-'' # str_nat (nat (- i))"
      by (simp add: str_int_def del: str_nat.simps)
    then show ?thesis by (simp add: str_nat_no_minus del: str_nat.simps)
  next
    case 3
    with a have "str_nat (nat i) = CHR ''-'' # str_nat (nat (- j))"
      by (simp add: str_int_def del: str_nat.simps)
    then show ?thesis by (simp add: str_nat_no_minus del: str_nat.simps)
  next
    case 4
    with a have "str_nat (nat i) = str_nat (nat j)"
      by (simp add: str_int_def del: str_nat.simps)
    then have "nat i = nat j" by (rule str_nat_inj)
    with 4 show ?thesis by simp
  qed
qed

lemma str_int_no_comma: "CHR '','' \<notin> set (str_int i)"
  using str_nat_digits [of "nat i"] str_nat_digits [of "nat (- i)"]
  by (auto simp: str_int_def simp del: str_nat.simps)

lemma takeWhile_up_to:
  "c \<notin> set a \<Longrightarrow> takeWhile (\<lambda>d. d \<noteq> c) (a @ c # x) = a"
  by (induction a) auto

lemma comma_free_prefix:
  assumes "c \<notin> set a" "c \<notin> set b" "a @ c # x = b @ c # y"
  shows "a = b"
proof -
  have "takeWhile (\<lambda>d. d \<noteq> c) (a @ c # x) = a"
    using assms(1) by (rule takeWhile_up_to)
  moreover have "takeWhile (\<lambda>d. d \<noteq> c) (b @ c # y) = b"
    using assms(2) by (rule takeWhile_up_to)
  ultimately show ?thesis using assms(3) by simp
qed

lemma unexpected_message_status_code:
  assumes "unexpected_message r = unexpected_message r'"
  shows "status_code r = status_code r'"
proof -
  from assms have "str_int (status_code r) @ CHR '','' # ('' body='' @ repr_bytes (content r))
      = str_int (status_code r') @ CHR '','' # ('' body='' @ repr_bytes (content r'))"
    by (simp add: unexpected_message_def)
  then have "str_int (status_code r) = str_int (status_code r')"
    by (rule comma_free_prefix [OF str_int_no_comma str_int_no_comma])
  then show ?thesis by (rule str_int_inj)
qed

subsection \<open>Rounding to the nearest double\<close>

lemma round_half_even_bounds:
  "\<lfloor>q\<rfloor> \<le> round_half_even q \<and> round_half_even q \<le> \<lceil>q\<rceil>"
proof -
  have "q - of_int \<lfloor>q\<rfloor> \<noteq> 0 \<Longrightarrow> \<lfloor>q\<rfloor> + 1 \<le> \<lceil>q\<rceil>"
    by (metis ceiling_altdef cancel_comm_monoid_add_class.diff_cancel order_refl)
  moreover have "\<lfloor>q\<rfloor> \<le> \<lceil>q\<rceil>" by (rule floor_le_ceiling)
  ultimately show ?thesis
    by (auto simp: round_half_even_def Let_def)
qed

lemma round_half_even_error: "\<bar>of_int (round_half_even q) - q\<bar> \<le> 1 / 2"
proof -
  have "of_int \<lfloor>q\<rfloor> \<le> q" "q < of_int \<lfloor>q\<rfloor> + 1" by linarith+
  then show ?thesis
    by (auto simp: round_half_even_def Let_def abs_le_iff)
qed

lemma round_double_0: "round_double 0 = 0"
  by (simp add: round_double_def)


lemma fl_in_range: "\<bar>x\<bar> < 2 ^ 1024 - 2 ^ 970 \<Longrightarrow> fl x = Finite (round_double x)"
  by (simp add: fl_def)


lemma spacing_le:
  assumes "x \<noteq> 0"
  shows "2 powr (of_int (max \<lfloor>log 2 \<bar>x\<bar>\<rfloor> (- 1022)) - 52) \<le> \<bar>x\<bar> + 1"
proof (cases "\<lfloor>log 2 \<bar>x\<bar>\<rfloor> \<le> - 1022")
  case True
  then have "max \<lfloor>log 2 \<bar>x\<bar>\<rfloor> (- 1022) = - 1022" by simp
  moreover have "(2::real) powr (of_int (- 1022) - 52) \<le> 2 powr 0"
    by (rule powr_mono) simp_all
  ultimately show ?thesis by simp
next
  case False
  then have m: "max \<lfloor>log 2 \<bar>x\<bar>\<rfloor> (- 1022) = \<lfloor>log 2 \<bar>x\<bar>\<rfloor>" by simp
  have "(2::real) powr (of_int \<lfloor>log 2 \<bar>x\<bar>\<rfloor> - 52) \<le> 2 powr (log 2 \<bar>x\<bar>)"
    by (rule powr_mono) (simp_all add: algebra_simps, linarith)
  also have "\<dots> = \<bar>x\<bar>" using assms by simp
  finally show ?thesis by (simp add: m)
qed

lemma round_double_bound: "\<bar>round_double x\<bar> \<le> 2 * \<bar>x\<bar> + 1"
proof (cases "x = 0")
  case True
  then show ?thesis by (simp add: round_double_0)
next
  case False
  define u :: real where "u = 2 powr (of_int (max \<lfloor>log 2 \<bar>x\<bar>\<rfloor> (- 1022)) - 52)"
  have u: "0 < u" by (simp add: u_def)
  have le: "u \<le> \<bar>x\<bar> + 1" unfolding u_def using False by (rule spacing_le)
  have r: "round_double x = of_int (round_half_even (x / u)) * u"
    using False by (simp add: round_double_def Let_def u_def)
  define m :: real where "m = of_int (round_half_even (x / u))"
  have e: "\<bar>m - x / u\<bar> \<le> 1 / 2"
    unfolding m_def by (rule round_half_even_error)
  have "m * u - x = (m - x / u) * u"
    using u by (simp add: field_simps)
  then have "\<bar>m * u - x\<bar> = \<bar>m - x / u\<bar> * u"
    using u by (simp add: abs_mult)
  also have "\<dots> \<le> 1 / 2 * u"
    using e u by (intro mult_right_mono) simp_all
  finally have "\<bar>of_int (round_half_even (x / u)) * u - x\<bar> \<le> u / 2"
    by (simp add: m_def)
  with r have "\<bar>round_double x - x\<bar> \<le> u / 2" by simp
  with le show ?thesis by linarith
qed

lemma round_double_le_one:
  assumes "\<bar>x\<bar> \<le> 1"
  shows "\<bar>round_double x\<bar> \<le> 1"
proof (cases "x = 0")
  case True
  then show ?thesis by (simp add: round_double_0)
next
  case False
  define e where "e = max \<lfloor>log 2 \<bar>x\<bar>\<rfloor> (- 1022)"
  define k where "k = nat (52 - e)"
  define u :: real where "u = 2 powr (of_int e - 52)"
  have "log 2 \<bar>x\<bar> \<le> 0"
    using assms False by (simp add: log_le_zero_cancel_iff)
  then have "\<lfloor>log 2 \<bar>x\<bar>\<rfloor> \<le> 0" by (simp add: floor_le_zero)
  then have e0: "e \<le> 0" by (simp add: e_def)
  then have "of_int e - 52 = - real k" by (simp add: k_def)
  then have "u = 2 powr (- real k)" by (simp add: u_def)
  also have "\<dots> = 1 / 2 ^ k" by (simp add: powr_minus powr_realpow divide_inverse)
  finally have u: "u = 1 / 2 ^ k" .
  have q: "x / u = x * 2 ^ k" by (simp add: u)
  have "\<bar>x * 2 ^ k\<bar> \<le> 1 * 2 ^ k"
    using assms by (simp add: abs_mult)
  then have b: "- (2 ^ k) \<le> x * 2 ^ k" "x * 2 ^ k \<le> 2 ^ k"
    by (simp_all add: abs_le_iff)
  define N :: int where "N = 2 ^ k"
  have N: "real_of_int N = 2 ^ k" by (simp add: N_def)
  have "\<lceil>x * 2 ^ k\<rceil> \<le> N"
    using b(2) by (simp add: ceiling_le_iff N)
  moreover have "- N \<le> \<lfloor>x * 2 ^ k\<rfloor>"
    using b(1) by (simp add: le_floor_iff N)
  ultimately have "- N \<le> round_half_even (x * 2 ^ k)"
    and "round_half_even (x * 2 ^ k) \<le> N"
    using round_half_even_bounds [of "x * 2 ^ k"] by linarith+
  then have "\<bar>round_half_even (x * 2 ^ k)\<bar> \<le> N"
    by linarith
  then have "real_of_int \<bar>round_half_even (x * 2 ^ k)\<bar> \<le> real_of_int N"
    by (simp only: of_int_le_iff)
  then have "\<bar>real_of_int (round_half_even (x * 2 ^ k))\<bar> \<le> 2 ^ k"
    by (simp add: N)
  then have "\<bar>real_of_int (round_half_even (x * 2 ^ k))\<bar> * (1 / 2 ^ k) \<le> 2 ^ k * (1 / 2 ^ k)"
    by (intro mult_right_mono) simp_all
  then have "\<bar>real_of_int (round_half_even (x / u)) * u\<bar> \<le> 1"
    by (simp add: q u abs_mult)
  moreover have "round_double x = of_int (round_half_even (x / u)) * u"
    using False by (simp add: round_double_def Let_def u_def e_def)
  ultimately show ?thesis by simp
qed


subsection \<open>The distance branch\<close>

lemma distance_branch_haversine:
  assumes "lat_moscow_ring_road self = Some rla" and "long_moscow_ring_road self = Some rlo"
    and "float P rla = Inr flat1" and "float P rlo = Inr flon1"
    and "float P la = Inr flat2" and "float P lo = Inr flon2"
  shows "distance_branch P self lo la =
           haversine P (Finite 6373) (radians flat1) (radians flon1)
             (radians flat2) (radians flon2)"
  using assms
  by (simp add: distance_branch_def haversine_def haversine_a_def sin_squared_half_def
        getattr_def bind_err_def Let_def split: sum.split)

lemma fdiv_two: "\<exists>h. fdiv x (Finite 2) = Inr h"
  by (cases x) simp_all

lemma math_sin_error: "math_sin P x = Inl e \<Longrightarrow> e = ValueError"
  by (cases x) (simp_all add: math_sin_def)

lemma math_cos_error: "math_cos P x = Inl e \<Longrightarrow> e = ValueError"
  by (cases x) (simp_all add: math_cos_def)

lemma math_sqrt_error: "math_sqrt x = Inl e \<Longrightarrow> e = ValueError"
  by (cases x) (simp_all add: math_sqrt_def split: if_splits)

lemma float_pow2_error: "float_pow2 P x = Inl e \<Longrightarrow> e = ValueError \<or> e = OverflowError"
  by (cases x) (auto simp: float_pow2_def split: if_splits pyfloat.splits)

lemma sin_squared_half_error:
  "sin_squared_half P d = Inl e \<Longrightarrow> e = ValueError \<or> e = OverflowError"
  using fdiv_two [of d]
  by (auto simp: sin_squared_half_def bind_err_def split: sum.splits
           dest: math_sin_error float_pow2_error)

lemma haversine_a_error:
  "haversine_a P lat1 lon1 lat2 lon2 = Inl e \<Longrightarrow> e = ValueError \<or> e = OverflowError"
  by (auto simp: haversine_a_def bind_err_def split: sum.splits
           dest: math_cos_error sin_squared_half_error)

lemma haversine_error:
  "haversine P R lat1 lon1 lat2 lon2 = Inl e \<Longrightarrow> e = ValueError \<or> e = OverflowError"
  by (auto simp: haversine_def bind_err_def split: sum.splits
           dest: math_sqrt_error haversine_a_error)

lemma radians_finite:
  assumes "\<bar>x\<bar> < 2 ^ 1024"
  shows "radians (Finite x) = Finite (round_double (x * degToRad))"
proof -
  have d: "0 \<le> degToRad" "degToRad \<le> 1 / 2"
    by (simp_all add: degToRad_def)
  have "\<bar>x * degToRad\<bar> = \<bar>x\<bar> * degToRad"
    using d(1) by (simp add: abs_mult)
  also have "\<dots> \<le> \<bar>x\<bar> * (1 / 2)"
    using d(2) by (intro mult_left_mono) simp_all
  also have "\<dots> < 2 ^ 1024 * (1 / 2)"
    using assms by simp
  also have "\<dots> \<le> (2 ^ 1024 - 2 ^ 970 :: real)"
    by simp
  finally show ?thesis
    by (simp add: radians_def fl_in_range)
qed



subsection \<open>Coordinates that are not finite\<close>

lemma float_python_total: "\<not> isl (float python d)"
  by (cases d) (simp_all add: python_def float_decimal_def)

lemma float_python_examples:
  "float python (Dec False 376173 (- 4)) = Inr (Finite (round_double (376173 / 10000)))"
  "float python (Dec False 557558 (- 4)) = Inr (Finite (round_double (557558 / 10000)))"
  "float python (Dec False 37632206 (- 6)) = Inr (Finite (round_double (37632206 / 1000000)))"
  "float python (Dec False 55898947 (- 6)) = Inr (Finite (round_double (55898947 / 1000000)))"
  "float python (DInf False) = Inr PInf"
  by (simp_all add: python_def float_decimal_def fl_def)

lemma round_double_examples_in_range:
  "\<bar>round_double (376173 / 10000)\<bar> < 2 ^ 1024"
  "\<bar>round_double (557558 / 10000)\<bar> < 2 ^ 1024"
  "\<bar>round_double (37632206 / 1000000)\<bar> < 2 ^ 1024"
  "\<bar>round_double (55898947 / 1000000)\<bar> < 2 ^ 1024"
  using round_double_bound [of "376173 / 10000"] round_double_bound [of "557558 / 10000"]
    round_double_bound [of "37632206 / 1000000"] round_double_bound [of "55898947 / 1000000"]
  by simp_all

lemma Decimal_python_infinity: "Decimal python ''Infinity'' = Inr (DInf False)"
  by (simp add: python_def Decimal_plain_def)

lemma str_python_infinity: "str python (DInf False) = ''Infinity''"
  by (simp add: python_def str_decimal_def)

lemma radians_PInf: "radians PInf = PInf"
  by (simp add: radians_def degToRad_def)

lemma haversine_infinite_latitude:
  "haversine P R (Finite lat1) lon1 PInf lon2 = Inl ValueError"
  by (simp add: haversine_def haversine_a_def sin_squared_half_def fsub_def math_sin_def
        bind_err_def)

lemma unbounded_round_trip:
  assumes "api_key self = ''secret''"
  shows "fst (find_coordinates python (scripted [unbounded_page, unbounded_page]) self
                ''Nowhere'' []) = Inr (DInf False, DInf False)"
    and "fst (find_address python (scripted [unbounded_page, unbounded_page]) self
                (DInf False) (DInf False)
                ([] @ [geocoder_request (api_key self) ''Nowhere'']))
           = Inr (JStr ''Nowhere'')"
proof -
  let ?srv = "scripted [unbounded_page, unbounded_page]"
  let ?f = "feature ''Infinity Infinity'' ''Nowhere''"
  have f1: "features (?srv [] (geocoder_request (api_key self) ''Nowhere''))
              = Some (JArr [?f])"
    by (simp add: features_def scripted_def unbounded_page_def result_page_def bind_err_def)
  have p: "feature_pos ?f = Inr (JStr (''Infinity'' @ '' '' @ ''Infinity''))"
    by (simp add: feature_pos_feature)
  have s: "CHR '' '' \<notin> set ''Infinity''"
    by simp
  show "fst (find_coordinates python ?srv self ''Nowhere'' []) = Inr (DInf False, DInf False)"
    by (rule find_coordinates_tokens [where fs = "[]", OF _ p s s Decimal_python_infinity
          Decimal_python_infinity]) (rule f1)
  have f2: "features (?srv ([] @ [geocoder_request (api_key self) ''Nowhere''])
              (geocoder_request (api_key self)
                 (str python (DInf False) @ '','' @ str python (DInf False))))
            = Some (JArr [?f])"
    by (simp add: features_def scripted_def unbounded_page_def result_page_def bind_err_def)
  have "fst (find_address python ?srv self (DInf False) (DInf False)
               ([] @ [geocoder_request (api_key self) ''Nowhere''])) = feature_text ?f"
    by (rule find_address_first) (rule f2)
  then show "fst (find_address python ?srv self (DInf False) (DInf False)
               ([] @ [geocoder_request (api_key self) ''Nowhere'']))
          = Inr (JStr ''Nowhere'')"
    by (simp add: feature_text_feature)
qed

lemma unbounded_distance:
  "fst (calculate_distance python (scripted [unbounded_page, unbounded_page]) example_service
          (Some ''Nowhere'') []) = Inl ValueError"
proof -
  note c = unbounded_round_trip(1) [OF example_service_fields(1)]
  note t = unbounded_round_trip(2) [OF example_service_fields(1)]
  have "distance_branch python example_service (DInf False) (DInf False) =
          haversine python (Finite 6373)
            (radians (Finite (round_double (55898947 / 1000000))))
            (radians (Finite (round_double (37632206 / 1000000))))
            (radians PInf) (radians PInf)"
    by (rule distance_branch_haversine [OF example_service_fields(3) example_service_fields(2)
          float_python_examples(4) float_python_examples(3) float_python_examples(5)
          float_python_examples(5)])
  also have "\<dots> = Inl ValueError"
    by (simp only: radians_finite [OF round_double_examples_in_range(4)] radians_PInf
          haversine_infinite_latitude)
  finally have "distance_branch python example_service (DInf False) (DInf False)
                  = Inl ValueError" .
  with c t show ?thesis
    by (simp add: calculate_distance_Some)
qed

subsection \<open>What the distance branch can raise\<close>

lemma float_pow2_sine:
  assumes "sine_square_ok P" and "math_sin P h = Inr s" and "float_pow2 P s = Inl e"
  shows "e = ValueError"
proof (cases h)
  case (Finite v)
  with assms(2) have s: "s = Finite (c_sin P v)"
    by (simp add: math_sin_def)
  from assms(1) have "c_pow P \<bar>c_sin P v\<bar> 2 \<noteq> PInf" "c_pow P \<bar>c_sin P v\<bar> 2 \<noteq> NInf"
    by (simp_all add: sine_square_ok_def)
  with assms(3) s show ?thesis
    by (cases "c_pow P \<bar>c_sin P v\<bar> 2") (simp_all add: float_pow2_def split: if_splits)
next
  case PInf
  with assms(2) show ?thesis by (simp add: math_sin_def)
next
  case NInf
  with assms(2) show ?thesis by (simp add: math_sin_def)
next
  case NaN
  with assms(2) have "s = NaN" by (simp add: math_sin_def)
  with assms(3) show ?thesis by (simp add: float_pow2_def)
qed

lemma sin_squared_half_ValueError:
  assumes "sine_square_ok P" and "sin_squared_half P d = Inl e"
  shows "e = ValueError"
proof -
  from fdiv_two [of d] obtain h where h: "fdiv d (Finite 2) = Inr h" ..
  show ?thesis
  proof (cases "math_sin P h")
    case (Inl e')
    with h assms(2) have "e' = e"
      by (simp add: sin_squared_half_def bind_err_def)
    with Inl show ?thesis by (simp add: math_sin_error)
  next
    case (Inr s)
    with h assms(2) have "float_pow2 P s = Inl e"
      by (simp add: sin_squared_half_def bind_err_def)
    with assms(1) Inr show ?thesis by (rule float_pow2_sine)
  qed
qed

lemma haversine_a_ValueError:
  assumes "sine_square_ok P" and "haversine_a P lat1 lon1 lat2 lon2 = Inl e"
  shows "e = ValueError"
  using assms(2)
  by (auto simp: haversine_a_def bind_err_def split: sum.splits
           dest: math_cos_error sin_squared_half_ValueError [OF assms(1)])

lemma haversine_ValueError:
  assumes "sine_square_ok P" and "haversine P R lat1 lon1 lat2 lon2 = Inl e"
  shows "e = ValueError"
  using assms(2)
  by (auto simp: haversine_def bind_err_def split: sum.splits
           dest: math_sqrt_error haversine_a_ValueError [OF assms(1)])

lemma sine_square_ok_python: "sine_square_ok python"
proof -
  have "fl (\<bar>round_double (sin x)\<bar> powr 2) = Finite (round_double (\<bar>round_double (sin x)\<bar> powr 2))"
    for x :: real
  proof (rule fl_in_range)
    have "\<bar>round_double (sin x)\<bar> \<le> 1"
      by (rule round_double_le_one) simp
    then have "\<bar>round_double (sin x)\<bar> powr 2 \<le> 1 powr 2"
      by (intro powr_mono2) simp_all
    then have "\<bar>\<bar>round_double (sin x)\<bar> powr 2\<bar> \<le> 1"
      by simp
    also have "(1 :: real) < 2 ^ 1024 - 2 ^ 970"
      by simp
    finally show "\<bar>\<bar>round_double (sin x)\<bar> powr 2\<bar> < 2 ^ 1024 - 2 ^ 970" .
  qed
  then show ?thesis
    by (simp add: sine_square_ok_def python_def)
qed

lemma calculate_distance_outcome:
  assumes cp: "coordinates_page P (srv sent (geocoder_request (api_key self) address))"
    and ap: "\<forall>lo la. fst (find_coordinates P srv self address sent) = Inr (lo, la) \<longrightarrow>
           address_page (srv (sent @ [geocoder_request (api_key self) address])
                           (geocoder_request (api_key self) (str P lo @ '','' @ str P la)))
           \<and> \<not> isl (float P lo) \<and> \<not> isl (float P la)"
    and ro: "reference_ok P self"
    and so: "sine_square_ok P"
  shows "raises_named (fst (calculate_distance P srv self (Some address) sent))
         \<or> fst (calculate_distance P srv self (Some address) sent) = Inr (PyInt 0)
         \<or> (\<exists>d. fst (calculate_distance P srv self (Some address) sent) = Inr (PyFloat d))
         \<or> fst (calculate_distance P srv self (Some address) sent) = Inl ValueError"
proof -
  let ?q = "geocoder_request (api_key self) address"
  from find_coordinates_outcome [where srv = srv and sent = sent, OF cp]
  consider e where "fst (find_coordinates P srv self address sent) = Inl e" "named_error e"
    | lo la where "fst (find_coordinates P srv self address sent) = Inr (lo, la)"
    by blast
  then show ?thesis
  proof cases
    case 1
    from 1(1) have "fst (calculate_distance P srv self (Some address) sent) = Inl e"
      by (rule calculate_distance_first_error)
    with 1(2) show ?thesis by (simp add: raises_named_def)
  next
    case 2
    with ap have page: "address_page (srv (sent @ [?q])
                           (geocoder_request (api_key self) (str P lo @ '','' @ str P la)))"
      and flo: "\<not> isl (float P lo)" and fla: "\<not> isl (float P la)"
      by blast+
    from find_address_outcome [where srv = srv and sent = "sent @ [?q]", OF page]
    consider e where "fst (find_address P srv self lo la (sent @ [?q])) = Inl e" "named_error e"
      | t where "fst (find_address P srv self lo la (sent @ [?q])) = Inr (JStr t)"
      by blast
    then show ?thesis
    proof cases
      case 1
      from 2 1(1) have "fst (calculate_distance P srv self (Some address) sent) = Inl e"
        by (rule calculate_distance_second_error)
      with 1(2) show ?thesis by (simp add: raises_named_def)
    next
      case t: 2
      show ?thesis
      proof (cases "str_contains ''MKAD'' t")
        case True
        with 2 t show ?thesis by (simp add: calculate_distance_Some)
      next
        case False
        from ro obtain rlo rla where
          r: "long_moscow_ring_road self = Some rlo" "lat_moscow_ring_road self = Some rla"
             "\<not> isl (float P rlo)" "\<not> isl (float P rla)"
          by (auto simp: reference_ok_def split: option.splits)
        from r(4) obtain y1 where f1: "float P rla = Inr y1"
          by (cases "float P rla") simp_all
        from r(3) obtain x1 where f2: "float P rlo = Inr x1"
          by (cases "float P rlo") simp_all
        from fla obtain y2 where f3: "float P la = Inr y2"
          by (cases "float P la") simp_all
        from flo obtain x2 where f4: "float P lo = Inr x2"
          by (cases "float P lo") simp_all
        let ?h = "haversine P (Finite 6373) (radians y1) (radians x1) (radians y2) (radians x2)"
        have db: "distance_branch P self lo la = ?h"
          using r(2,1) f1 f2 f3 f4 by (rule distance_branch_haversine)
        show ?thesis
        proof (cases ?h)
          case (Inl e)
          with so have "e = ValueError"
            by (rule haversine_ValueError)
          with Inl db 2 t False
          have "fst (calculate_distance P srv self (Some address) sent) = Inl ValueError"
            by (simp add: calculate_distance_Some)
          then show ?thesis by simp
        next
          case (Inr d)
          with db 2 t False
          have "fst (calculate_distance P srv self (Some address) sent) = Inr (PyFloat d)"
            by (simp add: calculate_distance_Some)
          then show ?thesis by blast
        qed
      qed
    qed
  qed
qed

lemma unbounded_schema:
  "coordinates_page python (scripted [unbounded_page, unbounded_page] []
       (geocoder_request (api_key example_service) ''Nowhere''))"
  "address_page (scripted [unbounded_page, unbounded_page]
         ([] @ [geocoder_request (api_key example_service) ''Nowhere''])
         (geocoder_request (api_key example_service)
            (str python (DInf False) @ '','' @ str python (DInf False))))"
proof -
  let ?srv = "scripted [unbounded_page, unbounded_page]"
  let ?q = "geocoder_request (api_key example_service) ''Nowhere''"
  let ?f = "feature ''Infinity Infinity'' ''Nowhere''"
  have s1: "status_code (?srv [] ?q) = 200" and s2: "status_code (?srv [?q] q') = 200"
    for q'
    by (simp_all add: scripted_def unbounded_page_def result_page_def)
  have f1: "features (?srv [] ?q) = Some (JArr [?f])"
    and f2: "features (?srv [?q] q') = Some (JArr [?f])" for q'
    by (simp_all add: features_def scripted_def unbounded_page_def result_page_def
          bind_err_def)
  have po: "position_ok python ?f"
    by (simp add: position_ok_def feature_pos_feature py_split_def Decimal_python_infinity)
  show "coordinates_page python (?srv [] ?q)"
    by (simp add: coordinates_page_def s1 f1 po)
  show "address_page (?srv ([] @ [?q])
         (geocoder_request (api_key example_service)
            (str python (DInf False) @ '','' @ str python (DInf False))))"
    by (simp add: address_page_def s2 f2 feature_text_feature)
qed

lemma reference_ok_example: "reference_ok python example_service"
  by (simp add: reference_ok_def example_service_fields float_python_total)

subsection \<open>The claims\<close>

text \<open>
  Claim C2. \<^verbatim>\<open>request_geocoder\<close> maps the status of the response to its one request:
  with status 200 it returns what the decoded body holds under \<^verbatim>\<open>response\<close>; with
  status 400 it raises \<^verbatim>\<open>InvalidKey\<close>, whatever the body; with any other status it
  raises \<^verbatim>\<open>UnexpectedResponse\<close> with the message built from the status code and the
  raw body of that response (two messages that are equal come from the same status code:
  \<open>unexpected_message_status_code\<close>). The same holds for \<^verbatim>\<open>find_coordinates\<close>,
  \<^verbatim>\<open>find_address\<close> and both requests of \<^verbatim>\<open>calculate_distance\<close>.
\<close>

theorem status_mapping:
  "(let r = srv sent (geocoder_request (api_key self) location) in
      (status_code r = 200 \<longrightarrow>
         (\<forall>body v. json r = Some body \<and> getitem body ''response'' = Inr v \<longrightarrow>
            fst (request_geocoder srv self location sent) = Inr v)) \<and>
      (status_code r = 400 \<longrightarrow>
         fst (request_geocoder srv self location sent) = Inl InvalidKey \<and>
         fst (find_coordinates P srv self location sent) = Inl InvalidKey \<and>
         fst (calculate_distance P srv self (Some location) sent) = Inl InvalidKey) \<and>
      (status_code r \<noteq> 200 \<and> status_code r \<noteq> 400 \<longrightarrow>
         fst (request_geocoder srv self location sent)
           = Inl (UnexpectedResponse (unexpected_message r)) \<and>
         fst (find_coordinates P srv self location sent)
           = Inl (UnexpectedResponse (unexpected_message r)) \<and>
         fst (calculate_distance P srv self (Some location) sent)
           = Inl (UnexpectedResponse (unexpected_message r)))) \<and>
   (let r = srv sent (geocoder_request (api_key self) (str P lo @ '','' @ str P la)) in
      (status_code r = 400 \<longrightarrow> fst (find_address P srv self lo la sent) = Inl InvalidKey) \<and>
      (status_code r \<noteq> 200 \<and> status_code r \<noteq> 400 \<longrightarrow>
         fst (find_address P srv self lo la sent)
           = Inl (UnexpectedResponse (unexpected_message r)))) \<and>
   (fst (find_coordinates P srv self location sent) = Inr (lo, la) \<longrightarrow>
      (let r = srv (sent @ [geocoder_request (api_key self) location])
                 (geocoder_request (api_key self) (str P lo @ '','' @ str P la)) in
         (status_code r = 400 \<longrightarrow>
            fst (calculate_distance P srv self (Some location) sent) = Inl InvalidKey) \<and>
         (status_code r \<noteq> 200 \<and> status_code r \<noteq> 400 \<longrightarrow>
            fst (calculate_distance P srv self (Some location) sent)
              = Inl (UnexpectedResponse (unexpected_message r)))))"
proof -
  let ?r = "srv sent (geocoder_request (api_key self) location)"
  have a: "status_code ?r = 200 \<longrightarrow>
         (\<forall>body v. json ?r = Some body \<and> getitem body ''response'' = Inr v \<longrightarrow>
            fst (request_geocoder srv self location sent) = Inr v)"
    by (simp add: request_geocoder_200)
  have b: "status_code ?r = 400 \<longrightarrow>
         fst (request_geocoder srv self location sent) = Inl InvalidKey \<and>
         fst (find_coordinates P srv self location sent) = Inl InvalidKey \<and>
         fst (calculate_distance P srv self (Some location) sent) = Inl InvalidKey"
    by (simp add: request_geocoder_400 find_coordinates_400 calculate_distance_first_error)
  have c: "status_code ?r \<noteq> 200 \<and> status_code ?r \<noteq> 400 \<longrightarrow>
         fst (request_geocoder srv self location sent)
           = Inl (UnexpectedResponse (unexpected_message ?r)) \<and>
         fst (find_coordinates P srv self location sent)
           = Inl (UnexpectedResponse (unexpected_message ?r)) \<and>
         fst (calculate_distance P srv self (Some location) sent)
           = Inl (UnexpectedResponse (unexpected_message ?r))"
    by (simp add: request_geocoder_other find_coordinates_other calculate_distance_first_error)
  let ?q = "srv sent (geocoder_request (api_key self) (str P lo @ '','' @ str P la))"
  have d: "(status_code ?q = 400 \<longrightarrow> fst (find_address P srv self lo la sent) = Inl InvalidKey) \<and>
      (status_code ?q \<noteq> 200 \<and> status_code ?q \<noteq> 400 \<longrightarrow>
         fst (find_address P srv self lo la sent)
           = Inl (UnexpectedResponse (unexpected_message ?q)))"
    by (simp add: find_address_400 find_address_other)
  let ?s = "srv (sent @ [geocoder_request (api_key self) location])
                 (geocoder_request (api_key self) (str P lo @ '','' @ str P la))"
  have e: "fst (find_coordinates P srv self location sent) = Inr (lo, la) \<longrightarrow>
         (status_code ?s = 400 \<longrightarrow>
            fst (calculate_distance P srv self (Some location) sent) = Inl InvalidKey) \<and>
         (status_code ?s \<noteq> 200 \<and> status_code ?s \<noteq> 400 \<longrightarrow>
            fst (calculate_distance P srv self (Some location) sent)
              = Inl (UnexpectedResponse (unexpected_message ?s)))"
  proof (intro impI conjI)
    assume fc: "fst (find_coordinates P srv self location sent) = Inr (lo, la)"
      and st: "status_code ?s = 400"
    have "fst (find_address P srv self lo la (sent @ [geocoder_request (api_key self) location]))
            = Inl InvalidKey"
      using st
      by (rule find_address_400
            [where srv = srv and sent = "sent @ [geocoder_request (api_key self) location]"])
    with fc show "fst (calculate_distance P srv self (Some location) sent) = Inl InvalidKey"
      by (rule calculate_distance_second_error)
  next
    assume fc: "fst (find_coordinates P srv self location sent) = Inr (lo, la)"
      and st: "status_code ?s \<noteq> 200 \<and> status_code ?s \<noteq> 400"
    have "fst (find_address P srv self lo la (sent @ [geocoder_request (api_key self) location]))
            = Inl (UnexpectedResponse (unexpected_message ?s))"
      using st
      by (intro find_address_other
            [where srv = srv and sent = "sent @ [geocoder_request (api_key self) location]"])
         simp_all
    with fc show "fst (calculate_distance P srv self (Some location) sent)
            = Inl (UnexpectedResponse (unexpected_message ?s))"
      by (rule calculate_distance_second_error)
  qed
  from a b c d e show ?thesis
    unfolding Let_def by blast
qed

theorem status_mapping_witness:
  "status_code (scripted [red_square_page] [] (geocoder_request (api_key example_service) ''Red Square'')) = 200
   \<and> fst (request_geocoder (scripted [red_square_page]) example_service ''Red Square'' [])
       = Inr (JObj [(''GeoObjectCollection'', JObj [(''featureMember'',
                JArr [feature ''37.6173 55.7558'' ''Moscow, Russia''])])])
   \<and> status_code (scripted [key_rejected] [] (geocoder_request (api_key example_service) ''Red Square'')) = 400
   \<and> fst (request_geocoder (scripted [key_rejected]) example_service ''Red Square'' [])
       = Inl InvalidKey
   \<and> fst (find_coordinates python (scripted [key_rejected]) example_service ''Red Square'' [])
       = Inl InvalidKey
   \<and> fst (calculate_distance python (scripted [key_rejected]) example_service
             (Some ''Red Square'') []) = Inl InvalidKey
   \<and> status_code (scripted [not_found] [] (geocoder_request (api_key example_service) ''Red Square'')) = 404
   \<and> fst (calculate_distance python (scripted [not_found]) example_service
             (Some ''Red Square'') [])
       = Inl (UnexpectedResponse
                (''status_code=404, body=b'' @ [CHR 0x27] @ ''Not Found'' @ [CHR 0x27]))
   \<and> fst (find_address python (scripted [key_rejected]) example_service
             (Dec False 376173 (- 4)) (Dec False 557558 (- 4)) []) = Inl InvalidKey
   \<and> fst (find_coordinates python (scripted [red_square_page, not_found]) example_service
             ''Red Square'' []) = Inr (Dec False 376173 (- 4), Dec False 557558 (- 4))
   \<and> fst (calculate_distance python (scripted [red_square_page, not_found]) example_service
             (Some ''Red Square'') [])
       = Inl (UnexpectedResponse
                (''status_code=404, body=b'' @ [CHR 0x27] @ ''Not Found'' @ [CHR 0x27]))"
proof -
  let ?lo = "Dec False 376173 (- 4)" and ?la = "Dec False 557558 (- 4)"
  let ?c = "geocoder_request (api_key example_service)
              (str python ?lo @ '','' @ str python ?la)"
  let ?q = "geocoder_request (api_key example_service) ''Red Square''"
  let ?v = "JObj [(''GeoObjectCollection'', JObj [(''featureMember'',
                JArr [feature ''37.6173 55.7558'' ''Moscow, Russia''])])]"
  have h200: "status_code (scripted [red_square_page] [] ?q) = 200"
    by (simp add: scripted_def red_square_page_def result_page_def)
  have j200: "json (scripted [red_square_page] [] ?q) = Some (JObj [(''response'', ?v)])"
    by (simp add: scripted_def red_square_page_def result_page_def)
  have g200: "getitem (JObj [(''response'', ?v)]) ''response'' = Inr ?v"
    by simp
  have r200: "fst (request_geocoder (scripted [red_square_page]) example_service ''Red Square'' [])
       = Inr ?v"
    using status_mapping [where srv = "scripted [red_square_page]" and sent = "[]"
      and self = example_service and location = "''Red Square''"] h200 j200 g200
    unfolding Let_def by blast
  have h400: "status_code (scripted [key_rejected] [] ?q) = 400"
    by (simp add: scripted_def key_rejected_def)
  have r400: "fst (request_geocoder (scripted [key_rejected]) example_service ''Red Square'' [])
       = Inl InvalidKey
   \<and> fst (find_coordinates python (scripted [key_rejected]) example_service ''Red Square'' [])
       = Inl InvalidKey
   \<and> fst (calculate_distance python (scripted [key_rejected]) example_service
             (Some ''Red Square'') []) = Inl InvalidKey"
    using status_mapping [where srv = "scripted [key_rejected]" and sent = "[]"
      and self = example_service and location = "''Red Square''" and P = python] h400
    unfolding Let_def by blast
  have h404: "status_code (scripted [not_found] [] ?q) = 404"
    by (simp add: scripted_def not_found_def)
  have m404: "unexpected_message (scripted [not_found] [] ?q)
       = ''status_code=404, body=b'' @ [CHR 0x27] @ ''Not Found'' @ [CHR 0x27]"
    by (simp add: scripted_def not_found_def unexpected_message_def str_int_def digit_char_def
          repr_bytes_def repr_byte_def Let_def)
  have "status_code (scripted [not_found] [] ?q) \<noteq> 200
      \<and> status_code (scripted [not_found] [] ?q) \<noteq> 400"
    by (simp add: h404)
  then have r404: "fst (calculate_distance python (scripted [not_found]) example_service
             (Some ''Red Square'') [])
       = Inl (UnexpectedResponse (unexpected_message (scripted [not_found] [] ?q)))"
    using status_mapping [where srv = "scripted [not_found]" and sent = "[]"
      and self = example_service and location = "''Red Square''" and P = python]
    unfolding Let_def by blast
  have a400: "status_code (scripted [key_rejected] [] ?c) = 400"
    by (simp add: scripted_def key_rejected_def)
  have ra: "fst (find_address python (scripted [key_rejected]) example_service ?lo ?la [])
              = Inl InvalidKey"
    using status_mapping [where srv = "scripted [key_rejected]" and sent = "[]"
      and self = example_service and P = python and lo = ?lo and la = ?la] a400
    unfolding Let_def by blast
  let ?two = "scripted [red_square_page, not_found]"
  have f: "features (?two [] ?q) = Some (JArr [feature ''37.6173 55.7558'' ''Moscow, Russia''])"
    by (simp add: features_def scripted_def red_square_page_def result_page_def bind_err_def)
  have p: "feature_pos (feature ''37.6173 55.7558'' ''Moscow, Russia'')
             = Inr (JStr (''37.6173'' @ '' '' @ ''55.7558''))"
    by (simp add: feature_pos_feature)
  have s1: "CHR '' '' \<notin> set ''37.6173''" and s2: "CHR '' '' \<notin> set ''55.7558''"
    by simp_all
  have c: "fst (find_coordinates python ?two example_service ''Red Square'' []) = Inr (?lo, ?la)"
    by (rule find_coordinates_tokens [where fs = "[]", OF _ p s1 s2 Decimal_python_examples])
       (rule f)
  have b404: "status_code (?two ([] @ [?q]) ?c) \<noteq> 200
      \<and> status_code (?two ([] @ [?q]) ?c) \<noteq> 400"
    by (simp add: scripted_def not_found_def)
  have n404: "unexpected_message (?two ([] @ [?q]) ?c)
       = ''status_code=404, body=b'' @ [CHR 0x27] @ ''Not Found'' @ [CHR 0x27]"
    by (simp add: scripted_def not_found_def unexpected_message_def str_int_def digit_char_def
          repr_bytes_def repr_byte_def Let_def)
  have rb: "fst (calculate_distance python ?two example_service (Some ''Red Square'') [])
       = Inl (UnexpectedResponse (unexpected_message (?two ([] @ [?q]) ?c)))"
    using status_mapping [where srv = ?two and sent = "[]" and self = example_service
      and location = "''Red Square''" and P = python and lo = ?lo and la = ?la] c b404
    unfolding Let_def by blast
  show ?thesis
    using h200 r200 h400 r400 h404 r404 [unfolded m404] ra c rb [unfolded n404] by simp
qed

text \<open>
  Claim C6. On a result page with at least one feature, \<^verbatim>\<open>find_coordinates\<close> splits
  the \<^verbatim>\<open>pos\<close> string of the first feature at its single space and returns
  \<^verbatim>\<open>(Decimal(first), Decimal(second))\<close>, the first token as longitude and the second as
  latitude.
\<close>

theorem find_coordinates_parses_pos:
  assumes "features (srv sent (geocoder_request (api_key self) address)) = Some (JArr (f # fs))"
    and "feature_pos f = Inr (JStr (t1 @ '' '' @ t2))"
    and "CHR '' '' \<notin> set t1" and "CHR '' '' \<notin> set t2"
    and "Decimal P t1 = Inr longitude" and "Decimal P t2 = Inr latitude"
  shows "fst (find_coordinates P srv self address sent) = Inr (longitude, latitude)"
proof -
  have "fst (find_coordinates P srv self address sent) =
           bind_err (feature_pos f) (\<lambda>coordinates.
           bind_err (split_space coordinates) (\<lambda>pieces.
           bind_err (unpack2 pieces) (\<lambda>(longitude, latitude).
           bind_err (Decimal P longitude) (\<lambda>lo.
           bind_err (Decimal P latitude) (\<lambda>la. Inr (lo, la))))))"
    by (rule find_coordinates_first) (rule assms(1))
  moreover have "py_split CHR '' '' (t1 @ '' '' @ t2) = [t1, t2]"
    using assms(3,4) by (rule py_split_two)
  ultimately show ?thesis
    using assms(2,5,6) by (simp add: bind_err_def)
qed

theorem find_coordinates_parses_pos_witness:
  "features (scripted [red_square_page] []
      (geocoder_request (api_key example_service) ''Red Square''))
     = Some (JArr [feature ''37.6173 55.7558'' ''Moscow, Russia''])
   \<and> feature_pos (feature ''37.6173 55.7558'' ''Moscow, Russia'')
       = Inr (JStr (''37.6173'' @ '' '' @ ''55.7558''))
   \<and> CHR '' '' \<notin> set ''37.6173'' \<and> CHR '' '' \<notin> set ''55.7558''
   \<and> Decimal python ''37.6173'' = Inr (Dec False 376173 (- 4))
   \<and> Decimal python ''55.7558'' = Inr (Dec False 557558 (- 4))
   \<and> fst (find_coordinates python (scripted [red_square_page]) example_service
             ''Red Square'' [])
       = Inr (Dec False 376173 (- 4), Dec False 557558 (- 4))"
proof -
  have f: "features (scripted [red_square_page] []
      (geocoder_request (api_key example_service) ''Red Square''))
     = Some (JArr [feature ''37.6173 55.7558'' ''Moscow, Russia''])"
    by (rule red_square_features)
  have p: "feature_pos (feature ''37.6173 55.7558'' ''Moscow, Russia'')
       = Inr (JStr (''37.6173'' @ '' '' @ ''55.7558''))"
    by (simp add: feature_pos_feature)
  have s1: "CHR '' '' \<notin> set ''37.6173''" and s2: "CHR '' '' \<notin> set ''55.7558''"
    by simp_all
  note d = Decimal_python_examples
  have "fst (find_coordinates python (scripted [red_square_page]) example_service
             ''Red Square'' [])
       = Inr (Dec False 376173 (- 4), Dec False 557558 (- 4))"
    by (rule find_coordinates_parses_pos [where fs = "[]", OF _ p s1 s2 d]) (rule f)
  with f p s1 s2 d show ?thesis by blast
qed

text \<open>
  Claim C7. \<^verbatim>\<open>find_address\<close> sends one request whose \<^verbatim>\<open>geocode\<close> parameter is
  \<^verbatim>\<open>str(longitude) + "," + str(latitude)\<close>, and on a result page with at least one
  feature it returns the \<^verbatim>\<open>GeocoderMetaData\<close> text of the first feature unchanged.
\<close>

theorem find_address_query_and_text:
  "snd (snd (find_address P srv self longitude latitude sent)) =
     sent @ [geocoder_request (api_key self) (str P longitude @ '','' @ str P latitude)]
   \<and> map_of (params (geocoder_request (api_key self) (str P longitude @ '','' @ str P latitude)))
        ''geocode'' = Some (str P longitude @ '','' @ str P latitude)
   \<and> (\<forall>f fs t.
        features (srv sent (geocoder_request (api_key self)
                     (str P longitude @ '','' @ str P latitude))) = Some (JArr (f # fs))
        \<and> feature_text f = Inr t
        \<longrightarrow> fst (find_address P srv self longitude latitude sent) = Inr t)"
proof (intro conjI allI impI)
  show "snd (snd (find_address P srv self longitude latitude sent)) =
     sent @ [geocoder_request (api_key self) (str P longitude @ '','' @ str P latitude)]"
    by (simp add: find_address_frame)
  show "map_of (params (geocoder_request (api_key self)
                  (str P longitude @ '','' @ str P latitude))) ''geocode''
          = Some (str P longitude @ '','' @ str P latitude)"
    by (simp add: geocoder_request_def)
next
  fix f fs t
  assume a: "features (srv sent (geocoder_request (api_key self)
                     (str P longitude @ '','' @ str P latitude))) = Some (JArr (f # fs))
        \<and> feature_text f = Inr t"
  have "fst (find_address P srv self longitude latitude sent) = feature_text f"
    by (rule find_address_first) (rule conjunct1 [OF a])
  with a show "fst (find_address P srv self longitude latitude sent) = Inr t"
    by simp
qed

theorem find_address_query_and_text_witness:
  "features (scripted [red_square_page] []
      (geocoder_request (api_key example_service) ''37.6173,55.7558''))
     = Some (JArr [feature ''37.6173 55.7558'' ''Moscow, Russia''])
   \<and> feature_text (feature ''37.6173 55.7558'' ''Moscow, Russia'') = Inr (JStr ''Moscow, Russia'')
   \<and> find_address python (scripted [red_square_page]) example_service
         (Dec False 376173 (- 4)) (Dec False 557558 (- 4)) []
       = (Inr (JStr ''Moscow, Russia''), example_service,
          [geocoder_request ''secret'' ''37.6173,55.7558''])"
proof -
  let ?lo = "Dec False 376173 (- 4)" and ?la = "Dec False 557558 (- 4)"
  have q: "str python ?lo @ '','' @ str python ?la = ''37.6173,55.7558''"
    by (simp add: str_python_examples)
  have f: "features (scripted [red_square_page] []
      (geocoder_request (api_key example_service) ''37.6173,55.7558''))
     = Some (JArr [feature ''37.6173 55.7558'' ''Moscow, Russia''])"
    by (rule red_square_features)
  have t: "feature_text (feature ''37.6173 55.7558'' ''Moscow, Russia'')
             = Inr (JStr ''Moscow, Russia'')"
    by (rule feature_text_feature)
  note m = find_address_query_and_text [where P = python and srv = "scripted [red_square_page]"
      and self = example_service and longitude = ?lo and latitude = ?la and sent = "[]",
      unfolded q]
  from m have l: "snd (snd (find_address python (scripted [red_square_page]) example_service
          ?lo ?la [])) = [] @ [geocoder_request (api_key example_service) ''37.6173,55.7558'']"
    by (rule conjunct1)
  from m f t have r: "fst (find_address python (scripted [red_square_page]) example_service
          ?lo ?la []) = Inr (JStr ''Moscow, Russia'')"
    by blast
  have o: "fst (snd (find_address python (scripted [red_square_page]) example_service
          ?lo ?la [])) = example_service"
    by (simp add: find_address_frame)
  have k: "api_key example_service = ''secret''"
    by (simp add: example_service_def)
  from l r o have "find_address python (scripted [red_square_page]) example_service ?lo ?la []
       = (Inr (JStr ''Moscow, Russia''), example_service,
          [geocoder_request ''secret'' ''37.6173,55.7558''])"
    by (cases "find_address python (scripted [red_square_page]) example_service ?lo ?la []")
       (simp add: k)
  with f t show ?thesis by blast
qed

text \<open>
  Claim C3, as the code has it. When the result page holds an empty \<^verbatim>\<open>featureMember\<close>
  array, \<^verbatim>\<open>find_coordinates\<close> raises \<^verbatim>\<open>NothingFound\<close> with the message
  \<^verbatim>\<open>Nothing found for "<address>"\<close>, which holds the queried address, and
  \<^verbatim>\<open>find_address\<close> raises \<^verbatim>\<open>NothingFound\<close> with the message
  \<^verbatim>\<open>Nothing found for "<longitude>, <latitude>"\<close>: the two coordinates separated by a
  comma and a space, which is not the query string \<^verbatim>\<open><longitude>,<latitude>\<close> that was
  sent.
\<close>

theorem nothing_found_messages:
  "(features (srv sent (geocoder_request (api_key self) address)) = Some (JArr []) \<longrightarrow>
      fst (find_coordinates P srv self address sent) =
        Inl (NothingFound (''Nothing found for '' @ [CHR 0x22] @ address @ [CHR 0x22])))
   \<and> (features (srv sent (geocoder_request (api_key self) (str P lo @ '','' @ str P la)))
         = Some (JArr []) \<longrightarrow>
      fst (find_address P srv self lo la sent) =
        Inl (NothingFound (''Nothing found for '' @ [CHR 0x22] @ str P lo @ '', '' @ str P la
               @ [CHR 0x22])))"
proof (intro conjI impI)
  assume "features (srv sent (geocoder_request (api_key self) address)) = Some (JArr [])"
  then show "fst (find_coordinates P srv self address sent) =
        Inl (NothingFound (''Nothing found for '' @ [CHR 0x22] @ address @ [CHR 0x22]))"
    by (rule find_coordinates_empty)
next
  assume "features (srv sent (geocoder_request (api_key self) (str P lo @ '','' @ str P la)))
         = Some (JArr [])"
  then show "fst (find_address P srv self lo la sent) =
        Inl (NothingFound (''Nothing found for '' @ [CHR 0x22] @ str P lo @ '', '' @ str P la
               @ [CHR 0x22]))"
    by (rule find_address_empty)
qed

theorem nothing_found_messages_witness:
  "features (scripted [empty_page] [] (geocoder_request (api_key example_service) ''Atlantis''))
     = Some (JArr [])
   \<and> fst (find_coordinates python (scripted [empty_page]) example_service ''Atlantis'' [])
       = Inl (NothingFound (''Nothing found for '' @ [CHR 0x22] @ ''Atlantis'' @ [CHR 0x22]))
   \<and> features (scripted [empty_page] [] (geocoder_request (api_key example_service)
         (str python (Dec False 376173 (- 4)) @ '','' @ str python (Dec False 557558 (- 4)))))
     = Some (JArr [])
   \<and> fst (find_address python (scripted [empty_page]) example_service
            (Dec False 376173 (- 4)) (Dec False 557558 (- 4)) [])
       = Inl (NothingFound (''Nothing found for '' @ [CHR 0x22] @ ''37.6173, 55.7558''
                @ [CHR 0x22]))"
proof -
  let ?lo = "Dec False 376173 (- 4)" and ?la = "Dec False 557558 (- 4)"
  have f1: "features (scripted [empty_page] []
              (geocoder_request (api_key example_service) ''Atlantis'')) = Some (JArr [])"
    by (rule empty_page_features)
  have f2: "features (scripted [empty_page] [] (geocoder_request (api_key example_service)
              (str python ?lo @ '','' @ str python ?la))) = Some (JArr [])"
    by (rule empty_page_features)
  note n = nothing_found_messages [where srv = "scripted [empty_page]" and sent = "[]"
      and self = example_service and address = "''Atlantis''" and P = python
      and lo = ?lo and la = ?la]
  from n f1 have r1: "fst (find_coordinates python (scripted [empty_page]) example_service
        ''Atlantis'' [])
       = Inl (NothingFound (''Nothing found for '' @ [CHR 0x22] @ ''Atlantis'' @ [CHR 0x22]))"
    by blast
  from n f2 have "fst (find_address python (scripted [empty_page]) example_service ?lo ?la [])
       = Inl (NothingFound (''Nothing found for '' @ [CHR 0x22] @ str python ?lo @ '', ''
               @ str python ?la @ [CHR 0x22]))"
    by blast
  then have r2: "fst (find_address python (scripted [empty_page]) example_service ?lo ?la [])
       = Inl (NothingFound (''Nothing found for '' @ [CHR 0x22] @ ''37.6173, 55.7558''
                @ [CHR 0x22]))"
    by (simp add: str_python_examples)
  from f1 r1 f2 r2 show ?thesis by blast
qed

theorem nothing_found_message_counterexample:
  "features (scripted [empty_page] []
      (geocoder_request (api_key example_service) ''37.6173,55.7558'')) = Some (JArr [])
   \<and> find_address python (scripted [empty_page]) example_service
         (Dec False 376173 (- 4)) (Dec False 557558 (- 4)) []
       = (Inl (NothingFound (''Nothing found for '' @ [CHR 0x22] @ ''37.6173, 55.7558''
                 @ [CHR 0x22])),
          example_service, [geocoder_request ''secret'' ''37.6173,55.7558''])
   \<and> \<not> str_contains ''37.6173,55.7558''
         (''Nothing found for '' @ [CHR 0x22] @ ''37.6173, 55.7558'' @ [CHR 0x22])"
proof -
  let ?lo = "Dec False 376173 (- 4)" and ?la = "Dec False 557558 (- 4)"
  have q: "str python ?lo @ '','' @ str python ?la = ''37.6173,55.7558''"
    by (simp add: str_python_examples)
  have f: "features (scripted [empty_page] []
      (geocoder_request (api_key example_service) ''37.6173,55.7558'')) = Some (JArr [])"
    by (rule empty_page_features)
  have "features (scripted [empty_page] [] (geocoder_request (api_key example_service)
              (str python ?lo @ '','' @ str python ?la))) = Some (JArr [])"
    by (rule empty_page_features)
  then have "fst (find_address python (scripted [empty_page]) example_service ?lo ?la [])
       = Inl (NothingFound (''Nothing found for '' @ [CHR 0x22] @ str python ?lo @ '', ''
               @ str python ?la @ [CHR 0x22]))"
    by (rule find_address_empty)
  then have r: "fst (find_address python (scripted [empty_page]) example_service ?lo ?la [])
       = Inl (NothingFound (''Nothing found for '' @ [CHR 0x22] @ ''37.6173, 55.7558''
                @ [CHR 0x22]))"
    by (simp add: str_python_examples)
  have k: "api_key example_service = ''secret''"
    by (simp add: example_service_def)
  have "find_address python (scripted [empty_page]) example_service ?lo ?la []
       = (Inl (NothingFound (''Nothing found for '' @ [CHR 0x22] @ ''37.6173, 55.7558''
                 @ [CHR 0x22])),
          example_service, [geocoder_request ''secret'' ''37.6173,55.7558''])"
    by (subst find_address_shape) (simp only: r q k append_Nil)
  moreover have "\<not> str_contains ''37.6173,55.7558''
         (''Nothing found for '' @ [CHR 0x22] @ ''37.6173, 55.7558'' @ [CHR 0x22])"
    by simp
  ultimately show ?thesis using f by blast
qed

text \<open>
  Claim C8. \<^verbatim>\<open>__init__\<close> sends one request, for \<^verbatim>\<open>Moscow Ring Road\<close>; when the
  response has status 400 it raises \<^verbatim>\<open>InvalidKey\<close>, when the result page holds no
  feature it raises \<^verbatim>\<open>NothingFound\<close>, and in both cases there is no object.
\<close>

theorem init_failures:
  "snd (init P srv key sent) = sent @ [geocoder_request key ''Moscow Ring Road'']
   \<and> (status_code (srv sent (geocoder_request key ''Moscow Ring Road'')) = 400 \<longrightarrow>
        fst (init P srv key sent) = Inl InvalidKey)
   \<and> (features (srv sent (geocoder_request key ''Moscow Ring Road'')) = Some (JArr []) \<longrightarrow>
        fst (init P srv key sent) =
          Inl (NothingFound (''Nothing found for '' @ [CHR 0x22] @ ''Moscow Ring Road''
                 @ [CHR 0x22])))"
proof (intro conjI impI)
  let ?self = "\<lparr>api_key = key, long_moscow_ring_road = None :: 'a option,
                 lat_moscow_ring_road = None\<rparr>"
  show "snd (init P srv key sent) = sent @ [geocoder_request key ''Moscow Ring Road'']"
    by (rule init_snd)
  {
    assume "status_code (srv sent (geocoder_request key ''Moscow Ring Road'')) = 400"
    then have "status_code (srv sent (geocoder_request (api_key ?self) ''Moscow Ring Road''))
                 = 400"
      by simp
    then have "fst (find_coordinates P srv ?self ''Moscow Ring Road'' sent) = Inl InvalidKey"
      by (rule find_coordinates_400)
    then show "fst (init P srv key sent) = Inl InvalidKey"
      by (simp add: init_fst)
  }
  {
    assume "features (srv sent (geocoder_request key ''Moscow Ring Road'')) = Some (JArr [])"
    then have "features (srv sent (geocoder_request (api_key ?self) ''Moscow Ring Road''))
                 = Some (JArr [])"
      by simp
    then have "fst (find_coordinates P srv ?self ''Moscow Ring Road'' sent) =
        Inl (NothingFound (''Nothing found for '' @ [CHR 0x22] @ ''Moscow Ring Road''
               @ [CHR 0x22]))"
      by (rule find_coordinates_empty)
    then show "fst (init P srv key sent) =
          Inl (NothingFound (''Nothing found for '' @ [CHR 0x22] @ ''Moscow Ring Road''
                 @ [CHR 0x22]))"
      by (simp add: init_fst)
  }
qed

theorem init_failures_witness:
  "status_code (scripted [key_rejected] [] (geocoder_request ''secret'' ''Moscow Ring Road''))
     = 400
   \<and> init python (scripted [key_rejected]) ''secret'' []
       = (Inl InvalidKey, [geocoder_request ''secret'' ''Moscow Ring Road''])
   \<and> features (scripted [empty_page] [] (geocoder_request ''secret'' ''Moscow Ring Road''))
       = Some (JArr [])
   \<and> init python (scripted [empty_page]) ''secret'' []
       = (Inl (NothingFound (''Nothing found for '' @ [CHR 0x22] @ ''Moscow Ring Road''
                 @ [CHR 0x22])),
          [geocoder_request ''secret'' ''Moscow Ring Road''])"
proof -
  let ?q = "geocoder_request ''secret'' ''Moscow Ring Road''"
  have h: "status_code (scripted [key_rejected] [] ?q) = 400"
    by (simp add: scripted_def key_rejected_def)
  have f: "features (scripted [empty_page] [] ?q) = Some (JArr [])"
    by (rule empty_page_features)
  note a = init_failures [where P = python and srv = "scripted [key_rejected]"
      and key = "''secret''" and sent = "[]"]
  note b = init_failures [where P = python and srv = "scripted [empty_page]"
      and key = "''secret''" and sent = "[]"]
  from a h have a1: "fst (init python (scripted [key_rejected]) ''secret'' []) = Inl InvalidKey"
    by blast
  from a have a2: "snd (init python (scripted [key_rejected]) ''secret'' []) = [] @ [?q]"
    by blast
  from b f have b1: "fst (init python (scripted [empty_page]) ''secret'' []) =
      Inl (NothingFound (''Nothing found for '' @ [CHR 0x22] @ ''Moscow Ring Road''
             @ [CHR 0x22]))"
    by blast
  from b have b2: "snd (init python (scripted [empty_page]) ''secret'' []) = [] @ [?q]"
    by blast
  have "init python (scripted [key_rejected]) ''secret'' [] = (Inl InvalidKey, [?q])"
    using a1 a2 by (cases "init python (scripted [key_rejected]) ''secret'' []") simp
  moreover have "init python (scripted [empty_page]) ''secret'' []
       = (Inl (NothingFound (''Nothing found for '' @ [CHR 0x22] @ ''Moscow Ring Road''
                 @ [CHR 0x22])), [?q])"
    using b1 b2 by (cases "init python (scripted [empty_page]) ''secret'' []") simp
  ultimately show ?thesis using h f by blast
qed

text \<open>
  Claim C9. \<^verbatim>\<open>__init__\<close> sends exactly one request and stores the coordinates it
  resolved; \<^verbatim>\<open>request_geocoder\<close>, \<^verbatim>\<open>find_coordinates\<close>, \<^verbatim>\<open>find_address\<close> and
  \<^verbatim>\<open>calculate_distance\<close> return the object as they received it: the key and the
  reference point are never assigned again.
\<close>

theorem reference_point_fixed:
  "snd (init P srv key sent) = sent @ [geocoder_request key ''Moscow Ring Road'']
   \<and> (\<forall>lo la.
        fst (find_coordinates P srv
               \<lparr>api_key = key, long_moscow_ring_road = None, lat_moscow_ring_road = None\<rparr>
               ''Moscow Ring Road'' sent) = Inr (lo, la)
        \<longrightarrow> fst (init P srv key sent) =
              Inr \<lparr>api_key = key, long_moscow_ring_road = Some lo,
                   lat_moscow_ring_road = Some la\<rparr>)
   \<and> fst (snd (request_geocoder srv self location sent)) = self
   \<and> fst (snd (find_coordinates P srv self location sent)) = self
   \<and> fst (snd (find_address P srv self longitude latitude sent)) = self
   \<and> fst (snd (calculate_distance P srv self address sent)) = self"
  by (simp add: init_snd init_fst request_geocoder_frame find_coordinates_frame
        find_address_frame calculate_distance_self)

theorem reference_point_fixed_witness:
  "fst (find_coordinates python (scripted [ring_road_page])
          \<lparr>api_key = ''secret'', long_moscow_ring_road = None, lat_moscow_ring_road = None\<rparr>
          ''Moscow Ring Road'' [])
     = Inr (Dec False 37632206 (- 6), Dec False 55898947 (- 6))
   \<and> init python (scripted [ring_road_page]) ''secret'' []
       = (Inr example_service, [geocoder_request ''secret'' ''Moscow Ring Road''])
   \<and> fst (snd (calculate_distance python (scripted [red_square_page, red_square_page])
                 example_service (Some ''Red Square'') [])) = example_service"
proof -
  let ?self = "\<lparr>api_key = ''secret'', long_moscow_ring_road = None :: decimal option,
                  lat_moscow_ring_road = None\<rparr>"
  have f: "features (scripted [ring_road_page] []
             (geocoder_request (api_key ?self) ''Moscow Ring Road''))
           = Some (JArr [feature ''37.632206 55.898947'' ''Russia, Moscow, MKAD''])"
    by (rule ring_road_features)
  have p: "feature_pos (feature ''37.632206 55.898947'' ''Russia, Moscow, MKAD'')
       = Inr (JStr (''37.632206'' @ '' '' @ ''55.898947''))"
    by (simp add: feature_pos_feature)
  have s1: "CHR '' '' \<notin> set ''37.632206''" and s2: "CHR '' '' \<notin> set ''55.898947''"
    by simp_all
  have c: "fst (find_coordinates python (scripted [ring_road_page]) ?self
                  ''Moscow Ring Road'' [])
           = Inr (Dec False 37632206 (- 6), Dec False 55898947 (- 6))"
    by (rule find_coordinates_tokens [where fs = "[]", OF _ p s1 s2
          Decimal_python_ring_road]) (rule f)
  note r = reference_point_fixed [where P = python and srv = "scripted [ring_road_page]"
      and key = "''secret''" and sent = "[]"]
  from r c have i1: "fst (init python (scripted [ring_road_page]) ''secret'' []) =
      Inr \<lparr>api_key = ''secret'', long_moscow_ring_road = Some (Dec False 37632206 (- 6)),
           lat_moscow_ring_road = Some (Dec False 55898947 (- 6))\<rparr>"
    by blast
  from r have i2: "snd (init python (scripted [ring_road_page]) ''secret'' [])
      = [] @ [geocoder_request ''secret'' ''Moscow Ring Road'']"
    by blast
  have i: "init python (scripted [ring_road_page]) ''secret'' []
       = (Inr example_service, [geocoder_request ''secret'' ''Moscow Ring Road''])"
    using i1 i2
    by (cases "init python (scripted [ring_road_page]) ''secret'' []")
       (simp add: example_service_def)
  have d: "fst (snd (calculate_distance python (scripted [red_square_page, red_square_page])
                 example_service (Some ''Red Square'') [])) = example_service"
    using reference_point_fixed [where P = python
        and srv = "scripted [red_square_page, red_square_page]" and self = example_service
        and address = "Some ''Red Square''" and sent = "[]"]
    by blast
  from c i d show ?thesis by blast
qed

text \<open>
  Claim C1. When the address that \<^verbatim>\<open>find_address\<close> returns for the resolved
  coordinates is a string that contains \<^verbatim>\<open>MKAD\<close>, \<^verbatim>\<open>calculate_distance\<close> returns
  the integer \<^verbatim>\<open>0\<close>, whatever the coordinates are and whatever their conversion to float
  would give: the distance branch is not entered.
\<close>

theorem marker_gives_zero:
  assumes "fst (find_coordinates P srv self a sent) = Inr (longitude, latitude)"
    and "fst (find_address P srv self longitude latitude
                (sent @ [geocoder_request (api_key self) a])) = Inr (JStr text)"
    and "str_contains ''MKAD'' text"
  shows "fst (calculate_distance P srv self (Some a) sent) = Inr (PyInt 0)"
  using assms by (simp add: calculate_distance_Some)

theorem marker_gives_zero_witness:
  "fst (find_coordinates python (scripted [ring_road_page, ring_road_page]) example_service
          ''Moscow Ring Road'' [])
     = Inr (Dec False 37632206 (- 6), Dec False 55898947 (- 6))
   \<and> fst (find_address python (scripted [ring_road_page, ring_road_page]) example_service
            (Dec False 37632206 (- 6)) (Dec False 55898947 (- 6))
            ([] @ [geocoder_request (api_key example_service) ''Moscow Ring Road'']))
       = Inr (JStr ''Russia, Moscow, MKAD'')
   \<and> str_contains ''MKAD'' ''Russia, Moscow, MKAD''
   \<and> fst (calculate_distance python (scripted [ring_road_page, ring_road_page])
            example_service (Some ''Moscow Ring Road'') []) = Inr (PyInt 0)"
proof -
  let ?srv = "scripted [ring_road_page, ring_road_page]"
  let ?lo = "Dec False 37632206 (- 6)" and ?la = "Dec False 55898947 (- 6)"
  let ?f = "feature ''37.632206 55.898947'' ''Russia, Moscow, MKAD''"
  have f1: "features (?srv [] (geocoder_request (api_key example_service) ''Moscow Ring Road''))
              = Some (JArr [?f])"
    by (simp add: features_def scripted_def ring_road_page_def result_page_def bind_err_def)
  have p: "feature_pos ?f = Inr (JStr (''37.632206'' @ '' '' @ ''55.898947''))"
    by (simp add: feature_pos_feature)
  have s1: "CHR '' '' \<notin> set ''37.632206''" and s2: "CHR '' '' \<notin> set ''55.898947''"
    by simp_all
  have c: "fst (find_coordinates python ?srv example_service ''Moscow Ring Road'' [])
             = Inr (?lo, ?la)"
    by (rule find_coordinates_tokens [where fs = "[]", OF _ p s1 s2 Decimal_python_ring_road])
       (rule f1)
  have f2: "features (?srv ([] @ [geocoder_request (api_key example_service)
                ''Moscow Ring Road''])
              (geocoder_request (api_key example_service)
                 (str python ?lo @ '','' @ str python ?la))) = Some (JArr [?f])"
    by (simp add: features_def scripted_def ring_road_page_def result_page_def bind_err_def)
  have "fst (find_address python ?srv example_service ?lo ?la
               ([] @ [geocoder_request (api_key example_service) ''Moscow Ring Road'']))
          = feature_text ?f"
    by (rule find_address_first) (rule f2)
  then have t: "fst (find_address python ?srv example_service ?lo ?la
               ([] @ [geocoder_request (api_key example_service) ''Moscow Ring Road'']))
          = Inr (JStr ''Russia, Moscow, MKAD'')"
    by (simp add: feature_text_feature)
  have m: "str_contains ''MKAD'' ''Russia, Moscow, MKAD''"
    by simp
  from c t m have "fst (calculate_distance python ?srv example_service
                          (Some ''Moscow Ring Road'') []) = Inr (PyInt 0)"
    by (rule marker_gives_zero)
  with c t m show ?thesis by blast
qed

text \<open>
  Claim C5, as the code has it. When the address that comes back does not contain
  \<^verbatim>\<open>MKAD\<close>, \<^verbatim>\<open>calculate_distance\<close> has sent the request for the address and then the
  request for the resolved coordinates, and its outcome is that of the haversine formula,
  with radius \<open>6373.0\<close>, evaluated in float arithmetic on the reference point and the
  resolved coordinates, all four converted to radians: the distance when the formula has
  a value, and the exception the formula raises when it has none.
\<close>

theorem distance_is_haversine:
  assumes "fst (find_coordinates P srv self a sent) = Inr (longitude, latitude)"
    and "fst (find_address P srv self longitude latitude
                (sent @ [geocoder_request (api_key self) a])) = Inr (JStr text)"
    and "\<not> str_contains ''MKAD'' text"
    and "lat_moscow_ring_road self = Some ref_latitude"
    and "long_moscow_ring_road self = Some ref_longitude"
    and "float P ref_latitude = Inr flat1" and "float P ref_longitude = Inr flon1"
    and "float P latitude = Inr flat2" and "float P longitude = Inr flon2"
  shows "calculate_distance P srv self (Some a) sent =
           ((case haversine P (Finite 6373) (radians flat1) (radians flon1)
                    (radians flat2) (radians flon2) of
               Inl e \<Rightarrow> Inl e
             | Inr d \<Rightarrow> Inr (PyFloat d)),
            self,
            sent @ [geocoder_request (api_key self) a,
                    geocoder_request (api_key self)
                      (str P longitude @ '','' @ str P latitude)])"
proof -
  have "distance_branch P self longitude latitude =
          haversine P (Finite 6373) (radians flat1) (radians flon1)
            (radians flat2) (radians flon2)"
    using assms(4-9) by (rule distance_branch_haversine)
  with assms(1-3) show ?thesis
    by (simp add: calculate_distance_Some)
qed

theorem distance_is_haversine_witness:
  "fst (find_coordinates python (scripted [red_square_page, red_square_page]) example_service
          ''Red Square'' [])
     = Inr (Dec False 376173 (- 4), Dec False 557558 (- 4))
   \<and> fst (find_address python (scripted [red_square_page, red_square_page]) example_service
            (Dec False 376173 (- 4)) (Dec False 557558 (- 4))
            ([] @ [geocoder_request (api_key example_service) ''Red Square'']))
       = Inr (JStr ''Moscow, Russia'')
   \<and> \<not> str_contains ''MKAD'' ''Moscow, Russia''
   \<and> calculate_distance python (scripted [red_square_page, red_square_page]) example_service
         (Some ''Red Square'') []
       = ((case haversine python (Finite 6373)
                 (radians (Finite (round_double (55898947 / 1000000))))
                 (radians (Finite (round_double (37632206 / 1000000))))
                 (radians (Finite (round_double (557558 / 10000))))
                 (radians (Finite (round_double (376173 / 10000)))) of
             Inl e \<Rightarrow> Inl e
           | Inr d \<Rightarrow> Inr (PyFloat d)),
          example_service,
          [geocoder_request ''secret'' ''Red Square'',
           geocoder_request ''secret'' ''37.6173,55.7558''])"
proof -
  let ?srv = "scripted [red_square_page, red_square_page]"
  let ?lo = "Dec False 376173 (- 4)" and ?la = "Dec False 557558 (- 4)"
  let ?h = "haversine python (Finite 6373)
                 (radians (Finite (round_double (55898947 / 1000000))))
                 (radians (Finite (round_double (37632206 / 1000000))))
                 (radians (Finite (round_double (557558 / 10000))))
                 (radians (Finite (round_double (376173 / 10000))))"
  note k = example_service_fields(1)
  note c = red_square_round_trip(1) [OF k]
  note t = red_square_round_trip(2) [OF k]
  have m: "\<not> str_contains ''MKAD'' ''Moscow, Russia''"
    by simp
  have "calculate_distance python ?srv example_service (Some ''Red Square'') []
       = ((case ?h of Inl e \<Rightarrow> Inl e | Inr d \<Rightarrow> Inr (PyFloat d)),
          example_service,
          [] @ [geocoder_request (api_key example_service) ''Red Square'',
                geocoder_request (api_key example_service)
                  (str python ?lo @ '','' @ str python ?la)])"
    by (rule distance_is_haversine [OF c t m example_service_fields(3)
          example_service_fields(2) float_python_examples(4) float_python_examples(3)
          float_python_examples(2) float_python_examples(1)])
  then have "calculate_distance python ?srv example_service (Some ''Red Square'') []
       = ((case ?h of Inl e \<Rightarrow> Inl e | Inr d \<Rightarrow> Inr (PyFloat d)),
          example_service,
          [geocoder_request ''secret'' ''Red Square'',
           geocoder_request ''secret'' ''37.6173,55.7558''])"
    by (simp only: k str_python_examples append_Nil append_Cons)
  with c t m show ?thesis by blast
qed

text \<open>
  A remote that answers with the position \<^verbatim>\<open>Infinity Infinity\<close> and an address without
  \<^verbatim>\<open>MKAD\<close>: both lookups succeed, \<^verbatim>\<open>math.sin\<close> is given an infinite argument, and
  \<^verbatim>\<open>calculate_distance\<close> raises \<^verbatim>\<open>ValueError\<close> instead of returning a distance.
\<close>

theorem distance_raises_counterexample:
  "fst (find_coordinates python (scripted [unbounded_page, unbounded_page]) example_service
          ''Nowhere'' [])
     = Inr (DInf False, DInf False)
   \<and> fst (find_address python (scripted [unbounded_page, unbounded_page]) example_service
            (DInf False) (DInf False)
            ([] @ [geocoder_request (api_key example_service) ''Nowhere'']))
       = Inr (JStr ''Nowhere'')
   \<and> \<not> str_contains ''MKAD'' ''Nowhere''
   \<and> fst (calculate_distance python (scripted [unbounded_page, unbounded_page])
            example_service (Some ''Nowhere'') [])
       = Inl ValueError"
proof -
  note c = unbounded_round_trip(1) [OF example_service_fields(1)]
  note t = unbounded_round_trip(2) [OF example_service_fields(1)]
  have m: "\<not> str_contains ''MKAD'' ''Nowhere''"
    by simp
  from c t m unbounded_distance show ?thesis by blast
qed



text \<open>
  Claim C4, as the code has it. The module checks the status code and whether the
  feature list is empty, and nothing else of a response. On responses that follow the
  schema, \<^verbatim>\<open>find_coordinates\<close> raises one of its three exceptions or returns a pair,
  \<^verbatim>\<open>find_address\<close> raises one of them or returns a string, and
  \<^verbatim>\<open>calculate_distance\<close>, on an object that has its reference point and for coordinates
  that convert to float, raises one of them, or returns \<^verbatim>\<open>0\<close> or a float, or raises
  the \<^verbatim>\<open>ValueError\<close> of a function of \<^verbatim>\<open>math\<close> in the distance formula.
\<close>

theorem outcomes_on_schema_responses:
  "(coordinates_page P (srv sent (geocoder_request (api_key self) address)) \<longrightarrow>
      raises_named (fst (find_coordinates P srv self address sent))
      \<or> (\<exists>lo la. fst (find_coordinates P srv self address sent) = Inr (lo, la)))
   \<and> (address_page (srv sent (geocoder_request (api_key self)
                       (str P longitude @ '','' @ str P latitude))) \<longrightarrow>
      raises_named (fst (find_address P srv self longitude latitude sent))
      \<or> (\<exists>t. fst (find_address P srv self longitude latitude sent) = Inr (JStr t)))
   \<and> (coordinates_page P (srv sent (geocoder_request (api_key self) address))
       \<and> (\<forall>lo la. fst (find_coordinates P srv self address sent) = Inr (lo, la) \<longrightarrow>
             address_page (srv (sent @ [geocoder_request (api_key self) address])
                             (geocoder_request (api_key self) (str P lo @ '','' @ str P la)))
             \<and> \<not> isl (float P lo) \<and> \<not> isl (float P la))
       \<and> reference_ok P self \<and> sine_square_ok P \<longrightarrow>
      raises_named (fst (calculate_distance P srv self (Some address) sent))
      \<or> fst (calculate_distance P srv self (Some address) sent) = Inr (PyInt 0)
      \<or> (\<exists>d. fst (calculate_distance P srv self (Some address) sent) = Inr (PyFloat d))
      \<or> fst (calculate_distance P srv self (Some address) sent) = Inl ValueError)"
proof (intro conjI impI)
  assume "coordinates_page P (srv sent (geocoder_request (api_key self) address))"
  from find_coordinates_outcome [where srv = srv and sent = sent, OF this]
  show "raises_named (fst (find_coordinates P srv self address sent))
      \<or> (\<exists>lo la. fst (find_coordinates P srv self address sent) = Inr (lo, la))"
    by (auto simp: raises_named_def)
next
  assume "address_page (srv sent (geocoder_request (api_key self)
                       (str P longitude @ '','' @ str P latitude)))"
  from find_address_outcome [where srv = srv and sent = sent, OF this]
  show "raises_named (fst (find_address P srv self longitude latitude sent))
      \<or> (\<exists>t. fst (find_address P srv self longitude latitude sent) = Inr (JStr t))"
    by (auto simp: raises_named_def)
next
  assume a: "coordinates_page P (srv sent (geocoder_request (api_key self) address))
       \<and> (\<forall>lo la. fst (find_coordinates P srv self address sent) = Inr (lo, la) \<longrightarrow>
             address_page (srv (sent @ [geocoder_request (api_key self) address])
                             (geocoder_request (api_key self) (str P lo @ '','' @ str P la)))
             \<and> \<not> isl (float P lo) \<and> \<not> isl (float P la))
       \<and> reference_ok P self \<and> sine_square_ok P"
  show "raises_named (fst (calculate_distance P srv self (Some address) sent))
      \<or> fst (calculate_distance P srv self (Some address) sent) = Inr (PyInt 0)
      \<or> (\<exists>d. fst (calculate_distance P srv self (Some address) sent) = Inr (PyFloat d))
      \<or> fst (calculate_distance P srv self (Some address) sent) = Inl ValueError"
    by (rule calculate_distance_outcome [where srv = srv and sent = sent])
       (use a in \<open>blast+\<close>)
qed

theorem outcomes_on_schema_responses_witness:
  "coordinates_page python (scripted [red_square_page, red_square_page] []
       (geocoder_request (api_key example_service) ''Red Square''))
   \<and> address_page (scripted [red_square_page, red_square_page]
         ([] @ [geocoder_request (api_key example_service) ''Red Square''])
         (geocoder_request (api_key example_service)
            (str python (Dec False 376173 (- 4)) @ '','' @ str python (Dec False 557558 (- 4)))))
   \<and> reference_ok python example_service
   \<and> sine_square_ok python
   \<and> (raises_named (fst (find_coordinates python (scripted [red_square_page, red_square_page])
                            example_service ''Red Square'' []))
        \<or> (\<exists>lo la. fst (find_coordinates python (scripted [red_square_page, red_square_page])
                            example_service ''Red Square'' []) = Inr (lo, la)))
   \<and> (raises_named (fst (calculate_distance python (scripted [red_square_page, red_square_page])
                            example_service (Some ''Red Square'') []))
        \<or> fst (calculate_distance python (scripted [red_square_page, red_square_page])
                 example_service (Some ''Red Square'') []) = Inr (PyInt 0)
        \<or> (\<exists>d. fst (calculate_distance python (scripted [red_square_page, red_square_page])
                      example_service (Some ''Red Square'') []) = Inr (PyFloat d))
        \<or> fst (calculate_distance python (scripted [red_square_page, red_square_page])
                 example_service (Some ''Red Square'') []) = Inl ValueError)"
proof -
  let ?srv = "scripted [red_square_page, red_square_page]"
  let ?lo = "Dec False 376173 (- 4)" and ?la = "Dec False 557558 (- 4)"
  let ?q = "geocoder_request (api_key example_service) ''Red Square''"
  let ?f = "feature ''37.6173 55.7558'' ''Moscow, Russia''"
  have s1: "status_code (?srv [] ?q) = 200" and s2: "status_code (?srv [?q] q') = 200"
    for q'
    by (simp_all add: scripted_def red_square_page_def result_page_def)
  have f1: "features (?srv [] ?q) = Some (JArr [?f])"
    and f2: "features (?srv [?q] q') = Some (JArr [?f])" for q'
    by (simp_all add: features_def scripted_def red_square_page_def result_page_def
          bind_err_def)
  have po: "position_ok python ?f"
    by (simp add: position_ok_def feature_pos_feature py_split_def Decimal_python_examples)
  have cp: "coordinates_page python (?srv [] ?q)"
    by (simp add: coordinates_page_def s1 f1 po)
  have ap: "address_page (?srv [?q] q')" for q'
    by (simp add: address_page_def s2 f2 feature_text_feature)
  note ro = reference_ok_example
  note so = sine_square_ok_python
  note c = red_square_round_trip(1) [OF example_service_fields(1)]
  have al: "\<forall>lo la. fst (find_coordinates python ?srv example_service ''Red Square'' [])
                = Inr (lo, la) \<longrightarrow>
             address_page (?srv ([] @ [?q])
                 (geocoder_request (api_key example_service)
                    (str python lo @ '','' @ str python la)))
             \<and> \<not> isl (float python lo) \<and> \<not> isl (float python la)"
    by (simp add: c ap float_python_total)
  note w = outcomes_on_schema_responses [where P = python and srv = ?srv and sent = "[]"
      and self = example_service and address = "''Red Square''"
      and longitude = ?lo and latitude = ?la]
  from w cp have r1: "raises_named (fst (find_coordinates python ?srv example_service
                                         ''Red Square'' []))
        \<or> (\<exists>lo la. fst (find_coordinates python ?srv example_service ''Red Square'' [])
               = Inr (lo, la))"
    by blast
  from w cp al ro so
  have r3: "raises_named (fst (calculate_distance python ?srv example_service
                                 (Some ''Red Square'') []))
        \<or> fst (calculate_distance python ?srv example_service (Some ''Red Square'') [])
            = Inr (PyInt 0)
        \<or> (\<exists>d. fst (calculate_distance python ?srv example_service (Some ''Red Square'') [])
                 = Inr (PyFloat d))
        \<or> fst (calculate_distance python ?srv example_service (Some ''Red Square'') [])
            = Inl ValueError"
    by blast
  from r1 r3 show ?thesis by (simp add: cp ap ro so)
qed

text \<open>
  A 200 response whose body decodes to an object without \<^verbatim>\<open>response\<close> makes
  \<^verbatim>\<open>find_coordinates\<close> raise \<^verbatim>\<open>KeyError\<close>, which is none of the three. And on
  responses that follow the schema, with the position \<^verbatim>\<open>Infinity Infinity\<close>,
  \<^verbatim>\<open>calculate_distance\<close> raises \<^verbatim>\<open>ValueError\<close>, which is none of the three either.
\<close>

theorem outcomes_counterexample:
  "status_code (scripted [malformed_page] []
                  (geocoder_request (api_key example_service) ''Red Square'')) = 200
   \<and> fst (find_coordinates python (scripted [malformed_page]) example_service
            ''Red Square'' []) = Inl KeyError
   \<and> \<not> named_error KeyError
   \<and> coordinates_page python (scripted [unbounded_page, unbounded_page] []
         (geocoder_request (api_key example_service) ''Nowhere''))
   \<and> address_page (scripted [unbounded_page, unbounded_page]
         ([] @ [geocoder_request (api_key example_service) ''Nowhere''])
         (geocoder_request (api_key example_service)
            (str python (DInf False) @ '','' @ str python (DInf False))))
   \<and> fst (calculate_distance python (scripted [unbounded_page, unbounded_page])
            example_service (Some ''Nowhere'') []) = Inl ValueError
   \<and> \<not> named_error ValueError"
proof -
  have "status_code (scripted [malformed_page] []
                  (geocoder_request (api_key example_service) ''Red Square'')) = 200
   \<and> fst (find_coordinates python (scripted [malformed_page]) example_service
            ''Red Square'' []) = Inl KeyError
   \<and> \<not> named_error KeyError \<and> \<not> named_error ValueError"
    by (simp add: find_coordinates_fst feature_members_fst request_geocoder_def scripted_def
          malformed_page_def bind_err_def named_error_def Let_def)
  with unbounded_schema unbounded_distance show ?thesis by blast
qed

end
